theory Spec2Isabelle
  imports Complex_Main "HOL-Library.AList" "HOL-Library.Log_Nat"
begin

section \<open>Python values\<close>

text \<open>
  The program is Python and its data is untyped: the vendor's mapping holds numbers,
  strings and \<^verbatim>\<open>None\<close>, and the formatter is called on whatever is found there.
  A value is modelled by its Python type. A string is the list of its code points, each
  below 256 (the Latin-1 range, which holds every literal of the source).
\<close>

subsection \<open>Floats\<close>

text \<open>
  A Python float is an IEEE-754 binary64 number: a finite value (an exact rational;
  \<open>Finite 0\<close> is \<^verbatim>\<open>0.0\<close>), negative zero, an infinity or a NaN.
\<close>

datatype pyfloat = Finite rat | NegZero | PosInf | NegInf | NaN

definition round_half_even :: "rat \<Rightarrow> int" where
  "round_half_even q =
     (let f = \<lfloor>q\<rfloor>; r = q - of_int f
      in if r < 1 / 2 then f
         else if 1 / 2 < r then f + 1
         else if even f then f else f + 1)"

text \<open>The exponent of a positive rational: the largest \<open>e\<close> with \<open>2 powi e \<le> q\<close>.\<close>

definition ilog2 :: "rat \<Rightarrow> int" where
  "ilog2 q =
     (let a = fst (quotient_of q); b = snd (quotient_of q);
          e = bitlen a - bitlen b
      in if 2 powi e \<le> q then e else e - 1)"

text \<open>
  Rounding the exact magnitude \<open>q \<ge> 0\<close> of a result to binary64, to nearest and ties to
  even: 53 significant bits, exponent at least \<open>-1022\<close> (subnormals below). The rounded
  magnitude is \<open>m * 2 powi (e - 52)\<close> with \<open>m \<le> 2 ^ 53\<close>; it overflows to an infinity
  when it reaches \<open>2 ^ 1024\<close>, that is when \<open>e\<close> is above 1023, or \<open>e\<close> is 1023 and
  \<open>m\<close> is \<open>2 ^ 53\<close>. \<open>neg\<close> is the sign of the result.
\<close>

definition round_double :: "bool \<Rightarrow> rat \<Rightarrow> pyfloat" where
  "round_double neg q =
     (let e = max (ilog2 q) (- 1022);
          m = round_half_even (q / 2 powi (e - 52));
          r = of_int m * 2 powi (e - 52)
      in if m = 0 then (if neg then NegZero else Finite 0)
         else if 1023 < e \<or> (e = 1023 \<and> 2 ^ 53 \<le> m) then (if neg then NegInf else PosInf)
         else Finite (if neg then - r else r))"

definition float_val :: "pyfloat \<Rightarrow> rat" where
  "float_val x = (case x of Finite q \<Rightarrow> q | _ \<Rightarrow> 0)"

definition float_is_zero :: "pyfloat \<Rightarrow> bool" where
  "float_is_zero x = (x = Finite 0 \<or> x = NegZero)"

definition float_signbit :: "pyfloat \<Rightarrow> bool" where
  "float_signbit x =
     (case x of Finite q \<Rightarrow> q < 0 | NegZero \<Rightarrow> True | NegInf \<Rightarrow> True | _ \<Rightarrow> False)"

definition float_is_inf :: "pyfloat \<Rightarrow> bool" where
  "float_is_inf x = (x = PosInf \<or> x = NegInf)"

text \<open>
  Comparison of a float with an integer constant (\<^verbatim>\<open>value >= 1_000\<close>,
  \<^verbatim>\<open>debt_change > 0\<close>). Python compares the two exactly; every comparison with a
  NaN is false.
\<close>

definition float_ge_int :: "pyfloat \<Rightarrow> int \<Rightarrow> bool" where
  "float_ge_int x k =
     (case x of
        Finite q \<Rightarrow> of_int k \<le> q
      | NegZero \<Rightarrow> k \<le> 0
      | PosInf \<Rightarrow> True
      | NegInf \<Rightarrow> False
      | NaN \<Rightarrow> False)"

definition float_gt_int :: "pyfloat \<Rightarrow> int \<Rightarrow> bool" where
  "float_gt_int x k =
     (case x of
        Finite q \<Rightarrow> of_int k < q
      | NegZero \<Rightarrow> k < 0
      | PosInf \<Rightarrow> True
      | NegInf \<Rightarrow> False
      | NaN \<Rightarrow> False)"

definition float_lt_int :: "pyfloat \<Rightarrow> int \<Rightarrow> bool" where
  "float_lt_int x k =
     (case x of
        Finite q \<Rightarrow> q < of_int k
      | NegZero \<Rightarrow> 0 < k
      | PosInf \<Rightarrow> False
      | NegInf \<Rightarrow> True
      | NaN \<Rightarrow> False)"

definition float_neg :: "pyfloat \<Rightarrow> pyfloat" where
  "float_neg x =
     (case x of
        Finite q \<Rightarrow> (if q = 0 then NegZero else Finite (- q))
      | NegZero \<Rightarrow> Finite 0
      | PosInf \<Rightarrow> NegInf
      | NegInf \<Rightarrow> PosInf
      | NaN \<Rightarrow> NaN)"

definition float_abs :: "pyfloat \<Rightarrow> pyfloat" where
  "float_abs x = (if float_signbit x then float_neg x else x)"

text \<open>IEEE addition, subtraction and multiplication: the exact result, rounded.\<close>

definition float_add :: "pyfloat \<Rightarrow> pyfloat \<Rightarrow> pyfloat" where
  "float_add x y =
     (if x = NaN \<or> y = NaN then NaN
      else if float_is_inf x then (if float_is_inf y \<and> y \<noteq> x then NaN else x)
      else if float_is_inf y then y
      else let s = float_val x + float_val y
           in if s = 0 then (if float_signbit x \<and> float_signbit y then NegZero else Finite 0)
              else round_double (s < 0) \<bar>s\<bar>)"

definition float_sub :: "pyfloat \<Rightarrow> pyfloat \<Rightarrow> pyfloat" where
  "float_sub x y = float_add x (float_neg y)"

definition float_mul :: "pyfloat \<Rightarrow> pyfloat \<Rightarrow> pyfloat" where
  "float_mul x y =
     (let neg = (float_signbit x \<noteq> float_signbit y)
      in if x = NaN \<or> y = NaN then NaN
         else if float_is_inf x \<or> float_is_inf y then
           (if float_is_zero x \<or> float_is_zero y then NaN
            else if neg then NegInf else PosInf)
         else round_double neg \<bar>float_val x * float_val y\<bar>)"

subsection \<open>Exceptions\<close>

text \<open>
  An exception is its class and its message, the text that \<^verbatim>\<open>f"{e}"\<close> prints.
  Every class here derives from \<^verbatim>\<open>Exception\<close>, so \<^verbatim>\<open>except Exception\<close>
  catches each of them; \<open>OtherException\<close> stands for what the vendor library raises.
  The messages of the built-in operations are those of CPython 3.11.
\<close>

datatype exn_class =
  ValueError | TypeError | OverflowError | ZeroDivisionError | IndexError | OtherException

datatype exn = Exn exn_class string

definition exn_class_of :: "exn \<Rightarrow> exn_class" where
  "exn_class_of e = (case e of Exn c m \<Rightarrow> c)"

definition exn_text :: "exn \<Rightarrow> string" where
  "exn_text e = (case e of Exn c m \<Rightarrow> m)"

text \<open>Sequencing of computations that may raise: the first exception ends the run.\<close>

definition bind_exn :: "exn + 'a \<Rightarrow> ('a \<Rightarrow> exn + 'b) \<Rightarrow> exn + 'b" where
  "bind_exn m f = (case m of Inl e \<Rightarrow> Inl e | Inr x \<Rightarrow> f x)"

text \<open>
  True division of floats. Python raises on a zero divisor, whatever the dividend;
  otherwise the result is the IEEE quotient.
\<close>

definition float_truediv :: "pyfloat \<Rightarrow> pyfloat \<Rightarrow> exn + pyfloat" where
  "float_truediv x y =
     (let neg = (float_signbit x \<noteq> float_signbit y)
      in if float_is_zero y then Inl (Exn ZeroDivisionError ''float division by zero'')
         else if x = NaN \<or> y = NaN then Inr NaN
         else if float_is_inf x then
           Inr (if float_is_inf y then NaN else if neg then NegInf else PosInf)
         else if float_is_inf y then Inr (if neg then NegZero else Finite 0)
         else Inr (round_double neg \<bar>float_val x / float_val y\<bar>))"

subsection \<open>Decimal output\<close>

definition digit_char :: "int \<Rightarrow> char" where
  "digit_char d = ''0123456789'' ! nat (d mod 10)"

function digits10 :: "int \<Rightarrow> string" where
  "digits10 n =
     (if n < 10 then [digit_char n] else digits10 (n div 10) @ [digit_char (n mod 10)])"
  by pat_completeness auto
termination
  by (relation "measure nat") auto

fun frac_digits :: "nat \<Rightarrow> int \<Rightarrow> string" where
  "frac_digits 0 n = []"
| "frac_digits (Suc p) n = frac_digits p (n div 10) @ [digit_char (n mod 10)]"

text \<open>\<^verbatim>\<open>str(i)\<close> of an integer.\<close>

definition int_str :: "int \<Rightarrow> string" where
  "int_str i = (if i < 0 then ''-'' @ digits10 (- i) else digits10 i)"

text \<open>
  The format specifications \<^verbatim>\<open>:.1f\<close> and \<^verbatim>\<open>:.2f\<close>: \<open>fmt_fixed p x\<close> is the float
  \<open>x\<close> in fixed notation with \<open>p \<ge> 1\<close> digits after the point. CPython rounds the
  exact binary value correctly (ties to even), keeps the sign of a negative value that
  rounds to zero, and writes the special values as \<^verbatim>\<open>inf\<close>, \<^verbatim>\<open>-inf\<close>, \<^verbatim>\<open>nan\<close>.
\<close>

definition fixed_digits :: "nat \<Rightarrow> int \<Rightarrow> string" where
  "fixed_digits p n = digits10 (n div 10 ^ p) @ ''.'' @ frac_digits p n"

definition fmt_fixed :: "nat \<Rightarrow> pyfloat \<Rightarrow> string" where
  "fmt_fixed p x =
     (case x of
        Finite q \<Rightarrow>
          (if q < 0 then ''-'' else [])
          @ fixed_digits p (round_half_even (\<bar>q\<bar> * 10 ^ p))
      | NegZero \<Rightarrow> ''-'' @ fixed_digits p 0
      | PosInf \<Rightarrow> ''inf''
      | NegInf \<Rightarrow> ''-inf''
      | NaN \<Rightarrow> ''nan'')"

subsection \<open>Values and their types\<close>

datatype pyval =
    PNone
  | PBool bool
  | PInt int
  | PFloat pyfloat
  | PStr string
  | PList "pyval list"
  | PDict "(string \<times> pyval) list"

definition type_name :: "pyval \<Rightarrow> string" where
  "type_name v =
     (case v of
        PNone \<Rightarrow> ''NoneType''
      | PBool b \<Rightarrow> ''bool''
      | PInt i \<Rightarrow> ''int''
      | PFloat x \<Rightarrow> ''float''
      | PStr s \<Rightarrow> ''str''
      | PList xs \<Rightarrow> ''list''
      | PDict kvs \<Rightarrow> ''dict'')"

text \<open>Truth value of an object, as \<^verbatim>\<open>if x and y\<close> tests it. A NaN is true.\<close>

definition truthy :: "pyval \<Rightarrow> bool" where
  "truthy v =
     (case v of
        PNone \<Rightarrow> False
      | PBool b \<Rightarrow> b
      | PInt i \<Rightarrow> i \<noteq> 0
      | PFloat x \<Rightarrow> \<not> float_is_zero x
      | PStr s \<Rightarrow> s \<noteq> []
      | PList xs \<Rightarrow> xs \<noteq> []
      | PDict kvs \<Rightarrow> kvs \<noteq> [])"

subsection \<open>Strings: \<^verbatim>\<open>repr\<close> and \<^verbatim>\<open>float\<close>\<close>

definition code :: "char \<Rightarrow> nat" where
  "code c = of_char c"

definition hex_char :: "nat \<Rightarrow> char" where
  "hex_char d = ''0123456789abcdef'' ! (d mod 16)"

text \<open>\<^verbatim>\<open>repr(s)\<close> of a string, which the message of a failed conversion quotes.\<close>

definition repr_char :: "char \<Rightarrow> char \<Rightarrow> string" where
  "repr_char quote c =
     (let n = code c
      in if c = CHR 0x5C then [CHR 0x5C, CHR 0x5C]
         else if c = quote then [CHR 0x5C, c]
         else if n = 9 then [CHR 0x5C, CHR ''t'']
         else if n = 10 then [CHR 0x5C, CHR ''n'']
         else if n = 13 then [CHR 0x5C, CHR ''r'']
         else if n < 32 \<or> (127 \<le> n \<and> n \<le> 160) \<or> n = 173
           then [CHR 0x5C, CHR ''x'', hex_char (n div 16), hex_char (n mod 16)]
         else [c])"

definition repr_str :: "string \<Rightarrow> string" where
  "repr_str s =
     (let quote = (if CHR 0x27 \<in> set s \<and> CHR 0x22 \<notin> set s then CHR 0x22 else CHR 0x27)
      in [quote] @ concat (map (repr_char quote) s) @ [quote])"

text \<open>
  \<^verbatim>\<open>float(s)\<close> of a string. Underscores may stand between two digits only; blanks
  around the number are dropped; the number is a signed decimal literal with an optional
  exponent, or \<^verbatim>\<open>inf\<close>, \<^verbatim>\<open>infinity\<close>, \<^verbatim>\<open>nan\<close> in any case. The value is the
  nearest float. \<open>None\<close> is the failure that Python reports as a \<^verbatim>\<open>ValueError\<close>.
\<close>

definition is_digit :: "char \<Rightarrow> bool" where
  "is_digit c = (48 \<le> code c \<and> code c \<le> 57)"

definition digit_val :: "char \<Rightarrow> int" where
  "digit_val c = int (code c) - 48"

definition is_space :: "char \<Rightarrow> bool" where
  "is_space c = (code c \<in> {9, 10, 11, 12, 13, 32, 133, 160})"

definition lower :: "char \<Rightarrow> char" where
  "lower c = (if 65 \<le> code c \<and> code c \<le> 90 then char_of (code c + 32) else c)"

fun underscores_ok :: "char option \<Rightarrow> string \<Rightarrow> bool" where
  "underscores_ok prev [] = (prev \<noteq> Some CHR ''_'')"
| "underscores_ok prev (c # cs) =
     (if c = CHR ''_''
      then (case prev of None \<Rightarrow> False | Some p \<Rightarrow> is_digit p \<and> underscores_ok (Some c) cs)
      else if prev = Some CHR ''_'' then is_digit c \<and> underscores_ok (Some c) cs
      else underscores_ok (Some c) cs)"

definition strip :: "string \<Rightarrow> string" where
  "strip s = rev (dropWhile is_space (rev (dropWhile is_space s)))"

definition parse_sign :: "string \<Rightarrow> bool \<times> string" where
  "parse_sign s =
     (case s of
        [] \<Rightarrow> (False, s)
      | c # r \<Rightarrow> if c = CHR ''-'' then (True, r) else if c = CHR ''+'' then (False, r)
                else (False, s))"

definition digits_val :: "string \<Rightarrow> int" where
  "digits_val ds = foldl (\<lambda>a c. 10 * a + digit_val c) 0 ds"

definition parse_decimal :: "bool \<Rightarrow> string \<Rightarrow> pyfloat option" where
  "parse_decimal neg s =
     (let ip = takeWhile is_digit s;
          r1 = dropWhile is_digit s;
          point = (r1 \<noteq> [] \<and> hd r1 = CHR ''.'');
          fp = (if point then takeWhile is_digit (tl r1) else []);
          r2 = (if point then dropWhile is_digit (tl r1) else r1);
          mant = digits_val (ip @ fp)
      in if ip = [] \<and> fp = [] then None
         else if r2 = [] then
           Some (round_double neg (of_int mant * 10 powi (- int (length fp))))
         else if hd r2 = CHR ''e'' \<or> hd r2 = CHR ''E'' then
           (let eneg = fst (parse_sign (tl r2)); ed = snd (parse_sign (tl r2));
                ex = (if eneg then - digits_val ed else digits_val ed)
            in if ed \<noteq> [] \<and> list_all is_digit ed
               then Some (round_double neg (of_int mant * 10 powi (ex - int (length fp))))
               else None)
         else None)"

definition float_of_string :: "string \<Rightarrow> pyfloat option" where
  "float_of_string s =
     (if \<not> underscores_ok None s then None
      else let t = strip (filter (\<lambda>c. c \<noteq> CHR ''_'') s);
               neg = fst (parse_sign t);
               body = map lower (snd (parse_sign t))
           in if body = ''inf'' \<or> body = ''infinity'' then Some (if neg then NegInf else PosInf)
              else if body = ''nan'' then Some NaN
              else parse_decimal neg body)"

subsection \<open>Built-in operations on values\<close>

text \<open>
  \<^verbatim>\<open>float(i)\<close> of an integer is the nearest float, and an \<^verbatim>\<open>OverflowError\<close> when
  that would be an infinity.
\<close>

definition int_to_float :: "int \<Rightarrow> exn + pyfloat" where
  "int_to_float i =
     (let x = round_double (i < 0) (of_int \<bar>i\<bar>)
      in if float_is_inf x then Inl (Exn OverflowError ''int too large to convert to float'')
         else Inr x)"

text \<open>
  \<^verbatim>\<open>float(v)\<close>: a \<^verbatim>\<open>ValueError\<close> for a string that is no number, a
  \<^verbatim>\<open>TypeError\<close> for a value that is neither a number nor a string.
\<close>

definition py_float :: "pyval \<Rightarrow> exn + pyfloat" where
  "py_float v =
     (case v of
        PFloat x \<Rightarrow> Inr x
      | PInt i \<Rightarrow> int_to_float i
      | PBool b \<Rightarrow> Inr (Finite (if b then 1 else 0))
      | PStr s \<Rightarrow>
          (case float_of_string s of
             Some x \<Rightarrow> Inr x
           | None \<Rightarrow> Inl (Exn ValueError (''could not convert string to float: '' @ repr_str s)))
      | _ \<Rightarrow>
          Inl (Exn TypeError
            (''float() argument must be a string or a real number, not ''
             @ [CHR 0x27] @ type_name v @ [CHR 0x27])))"

text \<open>
  The numbers among the values: a \<^verbatim>\<open>bool\<close> counts as the integer 0 or 1 in
  arithmetic and comparisons.
\<close>

datatype num = NInt int | NFloat pyfloat

definition as_num :: "pyval \<Rightarrow> num option" where
  "as_num v =
     (case v of
        PBool b \<Rightarrow> Some (NInt (if b then 1 else 0))
      | PInt i \<Rightarrow> Some (NInt i)
      | PFloat x \<Rightarrow> Some (NFloat x)
      | _ \<Rightarrow> None)"

definition num_to_float :: "num \<Rightarrow> exn + pyfloat" where
  "num_to_float n = (case n of NInt i \<Rightarrow> int_to_float i | NFloat x \<Rightarrow> Inr x)"

definition binop_error :: "string \<Rightarrow> pyval \<Rightarrow> pyval \<Rightarrow> exn" where
  "binop_error opr a b =
     Exn TypeError
       (''unsupported operand type(s) for '' @ opr @ '': '' @ [CHR 0x27] @ type_name a
        @ [CHR 0x27] @ '' and '' @ [CHR 0x27] @ type_name b @ [CHR 0x27])"

text \<open>
  \<^verbatim>\<open>a - b\<close>: exact on two integers; on a float and a number, the integer is converted
  first and the floats are subtracted; a \<^verbatim>\<open>TypeError\<close> on anything else.
\<close>

definition py_sub :: "pyval \<Rightarrow> pyval \<Rightarrow> exn + pyval" where
  "py_sub a b =
     (case (as_num a, as_num b) of
        (Some (NInt i), Some (NInt j)) \<Rightarrow> Inr (PInt (i - j))
      | (Some m, Some n) \<Rightarrow>
          bind_exn (num_to_float m) (\<lambda>x.
          bind_exn (num_to_float n) (\<lambda>y.
          Inr (PFloat (float_sub x y))))
      | _ \<Rightarrow> Inl (binop_error ''-'' a b))"

definition compare_error :: "string \<Rightarrow> pyval \<Rightarrow> exn" where
  "compare_error opr a =
     Exn TypeError
       ([CHR 0x27] @ opr @ [CHR 0x27] @ '' not supported between instances of ''
        @ [CHR 0x27] @ type_name a @ [CHR 0x27] @ '' and '' @ [CHR 0x27] @ ''int'' @ [CHR 0x27])"

text \<open>\<^verbatim>\<open>a > 0\<close> and \<^verbatim>\<open>a < 0\<close>.\<close>

definition py_gt0 :: "pyval \<Rightarrow> exn + bool" where
  "py_gt0 a =
     (case as_num a of
        Some (NInt i) \<Rightarrow> Inr (0 < i)
      | Some (NFloat x) \<Rightarrow> Inr (float_gt_int x 0)
      | None \<Rightarrow> Inl (compare_error ''>'' a))"

definition py_lt0 :: "pyval \<Rightarrow> exn + bool" where
  "py_lt0 a =
     (case as_num a of
        Some (NInt i) \<Rightarrow> Inr (i < 0)
      | Some (NFloat x) \<Rightarrow> Inr (float_lt_int x 0)
      | None \<Rightarrow> Inl (compare_error ''<'' a))"

definition py_abs :: "pyval \<Rightarrow> exn + pyval" where
  "py_abs a =
     (case as_num a of
        Some (NInt i) \<Rightarrow> Inr (PInt \<bar>i\<bar>)
      | Some (NFloat x) \<Rightarrow> Inr (PFloat (float_abs x))
      | None \<Rightarrow>
          Inl (Exn TypeError
            (''bad operand type for abs(): '' @ [CHR 0x27] @ type_name a @ [CHR 0x27])))"

subsection \<open>\<^verbatim>\<open>str\<close> of a value\<close>

text \<open>
  \<^verbatim>\<open>repr(x)\<close> of a float is the shortest decimal that reads back as \<open>x\<close> and, among
  those, the nearest to \<open>x\<close> (the even one on a tie). \<open>ilog10 q\<close> is the decimal exponent
  of \<open>q > 0\<close>, the largest \<open>e\<close> with \<open>10 powi e \<le> q\<close>. \<open>shortest_digits\<close> tries
  1, 2, \<open>\<dots>\<close>, 17 significant digits; 17 always suffice for a binary64 number.
\<close>

definition ilog10 :: "rat \<Rightarrow> int" where
  "ilog10 q =
     (if 1 \<le> q then int (length (digits10 \<lfloor>q\<rfloor>)) - 1
      else - int (length (digits10 (\<lceil>1 / q\<rceil> - 1))))"

fun shortest_digits :: "nat \<Rightarrow> nat \<Rightarrow> rat \<Rightarrow> int \<times> int" where
  "shortest_digits 0 n q =
     (let k = ilog10 q - int n + 1 in (round_half_even (q / 10 powi k), k))"
| "shortest_digits (Suc fuel) n q =
     (let k = ilog10 q - int n + 1;
          lo = \<lfloor>q / 10 powi k\<rfloor>;
          hi = lo + 1;
          below = q - of_int lo * 10 powi k;
          above = of_int hi * 10 powi k - q;
          ok_lo = (0 < lo \<and> round_double False (of_int lo * 10 powi k) = Finite q);
          ok_hi = (round_double False (of_int hi * 10 powi k) = Finite q)
      in if ok_lo \<and> ok_hi then
           (if below < above \<or> (below = above \<and> even lo) then (lo, k) else (hi, k))
         else if ok_lo then (lo, k)
         else if ok_hi then (hi, k)
         else shortest_digits fuel (Suc n) q)"

definition zeros :: "int \<Rightarrow> string" where
  "zeros n = replicate (nat n) CHR ''0''"

definition repr_positive :: "rat \<Rightarrow> string" where
  "repr_positive q =
     (let d = fst (shortest_digits 16 1 q);
          k = snd (shortest_digits 16 1 q);
          all = digits10 d;
          z = length (takeWhile (\<lambda>c. c = CHR ''0'') (rev all));
          ds = take (length all - z) all;
          decpt = int (length ds) + k + int z;
          ex = decpt - 1
      in if - 4 < decpt \<and> decpt \<le> 16 then
           (if decpt \<le> 0 then ''0.'' @ zeros (- decpt) @ ds
            else if int (length ds) \<le> decpt then ds @ zeros (decpt - int (length ds)) @ ''.0''
            else take (nat decpt) ds @ ''.'' @ drop (nat decpt) ds)
         else
           take 1 ds @ (if 1 < length ds then ''.'' @ drop 1 ds else [])
           @ ''e'' @ (if ex < 0 then ''-'' else ''+'')
           @ (if \<bar>ex\<bar> < 10 then ''0'' else []) @ digits10 \<bar>ex\<bar>)"

definition float_repr :: "pyfloat \<Rightarrow> string" where
  "float_repr x =
     (case x of
        Finite q \<Rightarrow>
          (if q = 0 then ''0.0''
           else (if q < 0 then ''-'' else []) @ repr_positive \<bar>q\<bar>)
      | NegZero \<Rightarrow> ''-0.0''
      | PosInf \<Rightarrow> ''inf''
      | NegInf \<Rightarrow> ''-inf''
      | NaN \<Rightarrow> ''nan'')"

fun join_comma :: "string list \<Rightarrow> string" where
  "join_comma [] = []"
| "join_comma [s] = s"
| "join_comma (s # t # ss) = s @ '', '' @ join_comma (t # ss)"

fun py_repr :: "pyval \<Rightarrow> string" where
  "py_repr PNone = ''None''"
| "py_repr (PBool b) = (if b then ''True'' else ''False'')"
| "py_repr (PInt i) = int_str i"
| "py_repr (PFloat x) = float_repr x"
| "py_repr (PStr s) = repr_str s"
| "py_repr (PList xs) = ''['' @ join_comma (map py_repr xs) @ '']''"
| "py_repr (PDict kvs) =
     ''{'' @ join_comma (map (\<lambda>kv. repr_str (fst kv) @ '': '' @ py_repr (snd kv)) kvs) @ ''}''"

text \<open>\<^verbatim>\<open>str(v)\<close>, which an f-string applies to the value it prints.\<close>

definition py_str :: "pyval \<Rightarrow> string" where
  "py_str v = (case v of PStr s \<Rightarrow> s | _ \<Rightarrow> py_repr v)"

text \<open>
  \<^verbatim>\<open>v * n\<close> for an integer constant \<open>n\<close>: the product of numbers, a string or a list
  repeated \<open>n\<close> times, a \<^verbatim>\<open>TypeError\<close> otherwise.
\<close>

definition py_mul_int :: "pyval \<Rightarrow> int \<Rightarrow> exn + pyval" where
  "py_mul_int v n =
     (case v of
        PBool b \<Rightarrow> Inr (PInt ((if b then 1 else 0) * n))
      | PInt i \<Rightarrow> Inr (PInt (i * n))
      | PFloat x \<Rightarrow>
          bind_exn (int_to_float n) (\<lambda>y. Inr (PFloat (float_mul x y)))
      | PStr s \<Rightarrow> Inr (PStr (concat (replicate (nat n) s)))
      | PList xs \<Rightarrow> Inr (PList (concat (replicate (nat n) xs)))
      | _ \<Rightarrow> Inl (binop_error ''*'' v (PInt n)))"

section \<open>The magnitude formatter and the debt change (data\_fetcher.py)\<close>

text \<open>
  The literal \<^verbatim>\<open>"Dato no disponible"\<close> of the source: the string that stands for a value
  that is not available.
\<close>

definition unavailable :: string where
  "unavailable = ''Dato no disponible''"

text \<open>
  \<^verbatim>\<open>format_large_numbers\<close> (lines 24 to 49). \<^verbatim>\<open>None\<close> is answered before the
  \<^verbatim>\<open>try\<close>. Inside it the value is converted by \<^verbatim>\<open>float\<close>, compared with the three
  thresholds as it is, divided and formatted. The handler is \<^verbatim>\<open>except ValueError\<close>:
  an exception of that class gives the unavailable string, any other one leaves the
  function (the result \<open>Inl\<close>).
\<close>

definition format_body :: "pyval \<Rightarrow> exn + string" where
  "format_body v =
     bind_exn (py_float v) (\<lambda>x.
       if float_ge_int x 1000000000 then
         bind_exn (float_truediv x (Finite 1000000000)) (\<lambda>y. Inr (fmt_fixed 1 y @ ''B''))
       else if float_ge_int x 1000000 then
         bind_exn (float_truediv x (Finite 1000000)) (\<lambda>y. Inr (fmt_fixed 1 y @ ''M''))
       else if float_ge_int x 1000 then
         bind_exn (float_truediv x (Finite 1000)) (\<lambda>y. Inr (fmt_fixed 1 y @ ''K''))
       else Inr (fmt_fixed 2 x))"

definition format_large_numbers :: "pyval \<Rightarrow> exn + string" where
  "format_large_numbers v =
     (if v = PNone then Inr unavailable
      else case format_body v of
             Inl e \<Rightarrow> (if exn_class_of e = ValueError then Inr unavailable else Inl e)
           | Inr s \<Rightarrow> Inr s)"

text \<open>
  \<^verbatim>\<open>calculate_debt_change\<close> (lines 155 to 175). The handler is \<^verbatim>\<open>except Exception\<close>,
  so the function always returns a string: the three answers, or the message of
  the exception after the prefix of the source (\<^verbatim>\<open>Error en el c\<close>, the
  code point 225, \<^verbatim>\<open>lculo: \<close>).
\<close>

definition debt_change_body :: "pyval \<Rightarrow> pyval \<Rightarrow> exn + string" where
  "debt_change_body last_year_debt this_year_debt =
     bind_exn (py_sub this_year_debt last_year_debt) (\<lambda>debt_change.
     bind_exn (py_gt0 debt_change) (\<lambda>pos.
       if pos then
         bind_exn (format_large_numbers debt_change) (\<lambda>s. Inr (''Aumento de '' @ s))
       else
         bind_exn (py_lt0 debt_change) (\<lambda>neg.
           if neg then
             bind_exn (py_abs debt_change) (\<lambda>a.
             bind_exn (format_large_numbers a) (\<lambda>s.
               Inr (''Disminuci'' @ [CHR 0xF3] @ ''n de '' @ s)))
           else Inr ''Sin cambio'')))"

definition calculate_debt_change :: "pyval \<Rightarrow> pyval \<Rightarrow> string" where
  "calculate_debt_change last_year_debt this_year_debt =
     (case debt_change_body last_year_debt this_year_debt of
        Inl e \<Rightarrow> ''Error en el c'' @ [CHR 0xE1] @ ''lculo: '' @ exn_text e
      | Inr s \<Rightarrow> s)"

section \<open>The fundamental data (data\_fetcher.py)\<close>

text \<open>
  A Python \<^verbatim>\<open>dict\<close> with string keys is the list of its items in insertion order. The
  vendor's \<^verbatim>\<open>info\<close> is read through \<open>map_of\<close>; the mappings the program builds keep
  their order, and \<^verbatim>\<open>d[k] = v\<close> is \<open>AList.update k v d\<close>, which replaces the value of
  a key that is there and appends a new key at the end.
\<close>

type_synonym pydict = "(string \<times> pyval) list"

text \<open>
  The local helper \<^verbatim>\<open>safe_get\<close> (lines 67 and 68):
  \<^verbatim>\<open>data.get(field, default) if field in data else default\<close>.
\<close>

definition safe_get :: "pydict \<Rightarrow> string \<Rightarrow> pyval \<Rightarrow> pyval" where
  "safe_get data field dflt =
     (case map_of data field of Some v \<Rightarrow> v | None \<Rightarrow> dflt)"

text \<open>
  Lines 70 to 72 and the entry of line 78: the dividend yield is multiplied by 100 when
  it is neither the unavailable string nor \<^verbatim>\<open>None\<close>; the entry is the value followed
  by \<open>%\<close> unless the value is the unavailable string.
\<close>

definition dividend_yield_value :: "pydict \<Rightarrow> exn + pyval" where
  "dividend_yield_value info =
     (let dividend_yield = safe_get info ''dividendYield'' (PStr unavailable)
      in if dividend_yield \<noteq> PStr unavailable \<and> dividend_yield \<noteq> PNone
         then py_mul_int dividend_yield 100
         else Inr dividend_yield)"

definition dividend_yield_entry :: "pyval \<Rightarrow> pyval" where
  "dividend_yield_entry dividend_yield =
     (if dividend_yield \<noteq> PStr unavailable then PStr (py_str dividend_yield @ ''%'')
      else PStr unavailable)"

text \<open>
  Lines 93 to 99: the nested mapping. The second entry is added when both fields are
  true values; it is the quotient of their conversions by \<^verbatim>\<open>float\<close>, formatted.
\<close>

definition debt_comparison_group :: "pydict \<Rightarrow> exn + pydict" where
  "debt_comparison_group info =
     bind_exn (format_large_numbers (safe_get info ''debtToEquity'' (PStr unavailable))) (\<lambda>prior.
       let debt_comparison = [(''Deuda Anterior'', PStr prior)]
       in if truthy (safe_get info ''totalDebt'' PNone)
             \<and> truthy (safe_get info ''debtToEquity'' PNone)
          then
            bind_exn (py_float (safe_get info ''totalDebt'' (PInt 0))) (\<lambda>x.
            bind_exn (py_float (safe_get info ''debtToEquity'' (PInt 1))) (\<lambda>y.
            bind_exn (float_truediv x y) (\<lambda>q.
            bind_exn (format_large_numbers (PFloat q)) (\<lambda>change.
              Inr (AList.update ''Cambio Deuda'' (PStr change) debt_comparison)))))
          else Inr debt_comparison)"

text \<open>
  The body of the \<^verbatim>\<open>try\<close> of \<^verbatim>\<open>fetch_fundamental_data\<close> (lines 65 to 103), from the
  vendor's \<^verbatim>\<open>info\<close> on. The entries are computed in the order of the source, so the
  first operation that raises decides the exception.
\<close>

definition fundamental_body :: "pydict \<Rightarrow> exn + pydict" where
  "fundamental_body info =
     bind_exn (dividend_yield_value info) (\<lambda>dividend_yield.
     bind_exn (format_large_numbers (safe_get info ''freeCashflow'' (PStr unavailable))) (\<lambda>fcf.
     bind_exn (format_large_numbers (safe_get info ''totalDebt'' (PStr unavailable))) (\<lambda>td.
     bind_exn (format_large_numbers (safe_get info ''longTermDebt'' (PStr unavailable))) (\<lambda>ltd.
     bind_exn (format_large_numbers (safe_get info ''operatingIncome'' (PStr unavailable))) (\<lambda>oi.
     bind_exn (format_large_numbers (safe_get info ''netIncomeToCommon'' (PStr unavailable))) (\<lambda>ni.
       let fundamental_data =
         [(''P/E Ratio'', safe_get info ''trailingPE'' (PStr unavailable)),
          (''P/B Ratio'', safe_get info ''priceToBook'' (PStr unavailable)),
          (''Dividend Yield'', dividend_yield_entry dividend_yield),
          (''ROE'', safe_get info ''returnOnEquity'' (PStr unavailable)),
          (''Debt to Equity'', safe_get info ''debtToEquity'' (PStr unavailable)),
          (''Beta'', safe_get info ''beta'' (PStr unavailable)),
          (''Revenue Growth'', safe_get info ''revenueGrowth'' (PStr unavailable)),
          (''Free Cash Flow'', PStr fcf),
          (''Total Debt'', PStr td),
          (''Long-Term Debt'', PStr ltd),
          (''Operating Income'', PStr oi),
          (''Net Income'', PStr ni),
          (''EPS Growth (5Y)'', safe_get info ''earningsQuarterlyGrowth'' (PStr unavailable)),
          (''EPS Growth (Next 5Y)'', safe_get info ''earningsGrowth'' (PStr unavailable))]
       in bind_exn (debt_comparison_group info) (\<lambda>debt_comparison.
            Inr (AList.update ''Debt Comparison'' (PDict debt_comparison) fundamental_data))))))))"

text \<open>
  \<^verbatim>\<open>fetch_fundamental_data\<close> (lines 52 to 106). The vendor call
  \<^verbatim>\<open>yf.Ticker(ticker).info\<close> is an argument: it raised \<open>Inl e\<close> or returned the mapping
  \<open>Inr info\<close>. The result is what the function printed and the mapping it returned;
  the handler \<^verbatim>\<open>except Exception\<close> prints one line and returns the empty mapping.
\<close>

definition fetch_fundamental_data :: "string \<Rightarrow> exn + pydict \<Rightarrow> string list \<times> pydict" where
  "fetch_fundamental_data ticker vendor =
     (case bind_exn vendor fundamental_body of
        Inl e \<Rightarrow>
          ([''Error al obtener datos fundamentales para '' @ ticker @ '': '' @ exn_text e], [])
      | Inr fundamental_data \<Rightarrow> ([], fundamental_data))"

section \<open>The debt comparison (data\_fetcher.py)\<close>

text \<open>
  The balance sheet is a table: the rows in the order of its index, each with its label
  and its cells, the most recent period first. A label may stand in the index more than
  once. \<^verbatim>\<open>balance_sheet.loc[label]\<close> is the row of the label, a series, when the label
  stands there once, and the table of its rows when it stands there several times.
\<close>

type_synonym frame = "(string \<times> pyval list) list"

datatype located = NoRow | Series "pyval list" | SubFrame "pyval list list"

text \<open>
  \<^verbatim>\<open>balance_sheet.loc[label] if label in balance_sheet.index else None\<close> (lines 125
  and 126).
\<close>

definition loc_or_none :: "frame \<Rightarrow> string \<Rightarrow> located" where
  "loc_or_none balance_sheet label =
     (case map snd (filter (\<lambda>r. fst r = label) balance_sheet) of
        [] \<Rightarrow> NoRow
      | row # more \<Rightarrow> (case more of [] \<Rightarrow> Series row | _ \<Rightarrow> SubFrame (row # more)))"

text \<open>
  \<^verbatim>\<open>row.iloc[i]\<close> on a series is the cell at position \<open>i\<close>, an \<^verbatim>\<open>IndexError\<close> when
  the series is shorter.
\<close>

definition iloc :: "pyval list \<Rightarrow> nat \<Rightarrow> exn + pyval" where
  "iloc row i =
     (if i < length row then Inr (row ! i)
      else Inl (Exn IndexError ''single positional indexer is out-of-bounds''))"

text \<open>
  What \<^verbatim>\<open>x.iloc[i] if x is not None else None\<close> reads (lines 129 to 134): a cell of a
  series (or \<^verbatim>\<open>None\<close>), or, on a table of several rows, the row at position \<open>i\<close>, which
  is a series.
\<close>

datatype reading = Scalar pyval | RowSeries "pyval list"

definition iloc_or_none :: "located \<Rightarrow> nat \<Rightarrow> exn + reading" where
  "iloc_or_none obj i =
     (case obj of
        NoRow \<Rightarrow> Inr (Scalar PNone)
      | Series row \<Rightarrow> bind_exn (iloc row i) (\<lambda>v. Inr (Scalar v))
      | SubFrame rows \<Rightarrow>
          if i < length rows then Inr (RowSeries (rows ! i))
          else Inl (Exn IndexError ''single positional indexer is out-of-bounds''))"

text \<open>
  Lines 138 to 141 and 143 to 146, for two cells: the three entries of one debt, added
  when both period values are true values.
\<close>

definition add_debt_entries ::
  "string \<Rightarrow> string \<Rightarrow> string \<Rightarrow> pyval \<Rightarrow> pyval \<Rightarrow> pydict \<Rightarrow> exn + pydict" where
  "add_debt_entries key_last key_this key_change last_year this_year debt_comparison =
     (if truthy last_year \<and> truthy this_year then
        bind_exn (format_large_numbers last_year) (\<lambda>s_last.
        bind_exn (format_large_numbers this_year) (\<lambda>s_this.
          Inr (AList.update key_change (PStr (calculate_debt_change last_year this_year))
                (AList.update key_this (PStr s_this)
                  (AList.update key_last (PStr s_last) debt_comparison)))))
      else Inr debt_comparison)"

text \<open>
  The same lines for what was read. The test \<^verbatim>\<open>if a and b\<close> asks for the truth value
  of \<open>a\<close> and, when that is true, of \<open>b\<close>; the truth value of a series is a
  \<^verbatim>\<open>ValueError\<close> of the vendor's table library.
\<close>

definition series_truth_error :: exn where
  "series_truth_error =
     Exn ValueError
       ''The truth value of a Series is ambiguous. Use a.empty, a.bool(), a.item(), a.any() or a.all().''"

definition add_debt_readings ::
  "string \<Rightarrow> string \<Rightarrow> string \<Rightarrow> reading \<Rightarrow> reading \<Rightarrow> pydict \<Rightarrow> exn + pydict" where
  "add_debt_readings key_last key_this key_change last_year this_year debt_comparison =
     (case last_year of
        RowSeries r \<Rightarrow> Inl series_truth_error
      | Scalar a \<Rightarrow>
          if truthy a then
            (case this_year of
               RowSeries r \<Rightarrow> Inl series_truth_error
             | Scalar b \<Rightarrow> add_debt_entries key_last key_this key_change a b debt_comparison)
          else Inr debt_comparison)"

definition debt_comparison_body :: "frame \<Rightarrow> exn + pydict" where
  "debt_comparison_body balance_sheet =
     (let total_debt = loc_or_none balance_sheet ''Total Debt'';
          long_term_debt = loc_or_none balance_sheet ''Long Term Debt''
      in bind_exn (iloc_or_none total_debt 1) (\<lambda>debt_last_year.
         bind_exn (iloc_or_none total_debt 0) (\<lambda>debt_this_year.
         bind_exn (iloc_or_none long_term_debt 1) (\<lambda>long_term_debt_last_year.
         bind_exn (iloc_or_none long_term_debt 0) (\<lambda>long_term_debt_this_year.
         bind_exn (add_debt_readings ''Total Debt Last Year'' ''Total Debt This Year''
                     ''Debt Change'' debt_last_year debt_this_year []) (\<lambda>debt_comparison.
           add_debt_readings ''Long Term Debt Last Year'' ''Long Term Debt This Year''
             ''Long Term Debt Change'' long_term_debt_last_year long_term_debt_this_year
             debt_comparison))))))"

text \<open>
  \<^verbatim>\<open>fetch_debt_comparison\<close> (lines 109 to 152). The vendor calls
  (\<^verbatim>\<open>stock.financials\<close>, \<^verbatim>\<open>stock.balance_sheet\<close>) are an argument, as above.
\<close>

definition fetch_debt_comparison :: "string \<Rightarrow> exn + frame \<Rightarrow> string list \<times> pydict" where
  "fetch_debt_comparison ticker vendor =
     (case bind_exn vendor debt_comparison_body of
        Inl e \<Rightarrow>
          ([''Error al obtener la comparaci'' @ [CHR 0xF3] @ ''n de deuda para '' @ ticker
            @ '': '' @ exn_text e], [])
      | Inr debt_comparison \<Rightarrow> ([], debt_comparison))"

section \<open>Exchange code mapping (exchange\_mapping.py, main.py)\<close>

text \<open>
  The table \<^verbatim>\<open>EXCHANGE_MAPPING\<close> of exchange\_mapping.py, in the order of the source,
  and the lookup \<^verbatim>\<open>EXCHANGE_MAPPING.get(market_code, market_code)\<close> of main.py
  (line 15) for a code that is a string.
\<close>

definition EXCHANGE_MAPPING :: "(string \<times> string) list" where
  "EXCHANGE_MAPPING =
     [(''NMS'', ''NASDAQ''),
      (''NYQ'', ''NYSE''),
      (''ASE'', ''AMEX''),
      (''MCE'', ''Mercado continuo''),
      (''TOR'', ''Toronto Stock Exchange''),
      (''LSE'', ''London Stock Exchange''),
      (''JPX'', ''Tokyo Stock Exchange''),
      (''OTC'', ''Over the Counter'')]"

definition market_name :: "string \<Rightarrow> string" where
  "market_name market_code =
     (case map_of EXCHANGE_MAPPING market_code of
        Some name \<Rightarrow> name
      | None \<Rightarrow> market_code)"

section \<open>Notions of the statements\<close>

text \<open>The fields that \<^verbatim>\<open>fetch_fundamental_data\<close> looks up in the vendor's mapping.\<close>

definition looked_up_fields :: "string list" where
  "looked_up_fields =
     [''dividendYield'', ''trailingPE'', ''priceToBook'', ''returnOnEquity'', ''debtToEquity'',
      ''beta'', ''revenueGrowth'', ''freeCashflow'', ''totalDebt'', ''longTermDebt'',
      ''operatingIncome'', ''netIncomeToCommon'', ''earningsQuarterlyGrowth'',
      ''earningsGrowth'']"

text \<open>The labels of the fourteen metrics of the result.\<close>

definition metric_labels :: "string list" where
  "metric_labels =
     [''P/E Ratio'', ''P/B Ratio'', ''Dividend Yield'', ''ROE'', ''Debt to Equity'', ''Beta'',
      ''Revenue Growth'', ''Free Cash Flow'', ''Total Debt'', ''Long-Term Debt'',
      ''Operating Income'', ''Net Income'', ''EPS Growth (5Y)'', ''EPS Growth (Next 5Y)'']"

text \<open>
  The debt rows of a table: for each of the two labels, the first row of the index that
  carries it. \<open>label_count\<close> is the number of rows that carry a label.
\<close>

definition debt_rows :: "frame \<Rightarrow> pyval list list" where
  "debt_rows balance_sheet =
     (case map_of balance_sheet ''Total Debt'' of None \<Rightarrow> [] | Some r \<Rightarrow> [r])
     @ (case map_of balance_sheet ''Long Term Debt'' of None \<Rightarrow> [] | Some r \<Rightarrow> [r])"

definition label_count :: "frame \<Rightarrow> string \<Rightarrow> nat" where
  "label_count balance_sheet label = length (filter (\<lambda>r. fst r = label) balance_sheet)"

text \<open>
  \<open>formatted v\<close> is the magnitude format of a value that the formatter accepts, and
  \<open>accepted v\<close> says that it does: it returns a string and does not raise.
\<close>

definition formatted :: "pyval \<Rightarrow> string" where
  "formatted v = (case format_large_numbers v of Inr s \<Rightarrow> s | Inl e \<Rightarrow> [])"

definition accepted :: "pyval \<Rightarrow> bool" where
  "accepted v = (case format_large_numbers v of Inr s \<Rightarrow> True | Inl e \<Rightarrow> False)"

text \<open>
  What the specification asks of the debt comparison, in its words: for a debt whose
  row is in the index, with position 0 the current and position 1 the prior period, and
  both values present and neither null nor zero, the formatted prior value, the formatted
  current value and the change; nothing otherwise. The null values of the vendor's table
  are \<^verbatim>\<open>None\<close> and the NaN that marks a missing figure.
\<close>

definition is_null :: "pyval \<Rightarrow> bool" where
  "is_null v = (v = PNone \<or> v = PFloat NaN)"

definition is_zero :: "pyval \<Rightarrow> bool" where
  "is_zero v =
     (case v of
        PBool b \<Rightarrow> b = False
      | PInt i \<Rightarrow> i = 0
      | PFloat x \<Rightarrow> float_is_zero x
      | _ \<Rightarrow> False)"

definition present_value :: "pyval list \<Rightarrow> nat \<Rightarrow> bool" where
  "present_value row i =
     (if i < length row then (if is_null (row ! i) then False else is_zero (row ! i) = False)
      else False)"

definition expected_debt_entries ::
  "frame \<Rightarrow> string \<Rightarrow> string \<Rightarrow> string \<Rightarrow> string \<Rightarrow> pydict" where
  "expected_debt_entries balance_sheet label key_last key_this key_change =
     (case map_of balance_sheet label of
        None \<Rightarrow> []
      | Some row \<Rightarrow>
          if present_value row 0 \<and> present_value row 1 then
            [(key_last, PStr (formatted (row ! 1))),
             (key_this, PStr (formatted (row ! 0))),
             (key_change, PStr (calculate_debt_change (row ! 1) (row ! 0)))]
          else [])"

text \<open>
  What the function emits for a debt: the three entries when the row is in the index and
  both values are true values of Python (a number that is not zero, a NaN included; not
  \<^verbatim>\<open>None\<close>), nothing otherwise.
\<close>

definition emitted_debt_entries ::
  "frame \<Rightarrow> string \<Rightarrow> string \<Rightarrow> string \<Rightarrow> string \<Rightarrow> pydict" where
  "emitted_debt_entries balance_sheet label key_last key_this key_change =
     (case map_of balance_sheet label of
        None \<Rightarrow> []
      | Some row \<Rightarrow>
          if truthy (row ! 1) \<and> truthy (row ! 0) then
            [(key_last, PStr (formatted (row ! 1))),
             (key_this, PStr (formatted (row ! 0))),
             (key_change, PStr (calculate_debt_change (row ! 1) (row ! 0)))]
          else [])"

section \<open>Properties\<close>

subsection \<open>Facts about the built-in operations\<close>

lemma py_float_Inr_not_None: "py_float v = Inr x \<Longrightarrow> v \<noteq> PNone"
  by (auto simp: py_float_def)

lemma float_truediv_const: "k \<noteq> 0 \<Longrightarrow> \<exists>y. float_truediv x (Finite k) = Inr y"
  by (simp add: float_truediv_def Let_def float_is_zero_def)

text \<open>The quotient of a finite float that is not negative by a positive constant.\<close>

lemma float_truediv_finite:
  "0 < k \<Longrightarrow> 0 \<le> q \<Longrightarrow>
     float_truediv (Finite q) (Finite k) = Inr (round_double False (q / k))"
  by (simp add: float_truediv_def Let_def float_is_zero_def float_is_inf_def
      float_signbit_def float_val_def)

lemma round_half_even_nonneg: "0 \<le> q \<Longrightarrow> 0 \<le> round_half_even q"
  by (simp add: round_half_even_def Let_def)

lemma round_double_neg_not_ge:
  assumes "0 \<le> q" "0 < k"
  shows "\<not> float_ge_int (round_double True q) k"
proof -
  define e where "e = max (ilog2 q) (- 1022)"
  have u: "(0::rat) < 2 powi (e - 52)" by (simp add: power_int_def)
  then have "0 \<le> q / 2 powi (e - 52)" using assms(1) by simp
  then have "0 \<le> round_half_even (q / 2 powi (e - 52))" by (rule round_half_even_nonneg)
  then have "0 \<le> rat_of_int (round_half_even (q / 2 powi (e - 52))) * 2 powi (e - 52)"
    using u by simp
  then show ?thesis
    using assms(2) by (simp add: round_double_def Let_def float_ge_int_def e_def [symmetric])
qed

lemma py_lt0_not_ge:
  assumes "py_lt0 v = Inr True" "py_float v = Inr x"
  shows "\<not> float_ge_int x 1000"
proof (cases v)
  case (PInt i)
  with assms have "i < 0" by (simp add: py_lt0_def as_num_def)
  moreover from assms PInt have "x = round_double (i < 0) (of_int \<bar>i\<bar>)"
    by (simp add: py_float_def int_to_float_def Let_def split: if_splits)
  ultimately show ?thesis using round_double_neg_not_ge [of "of_int \<bar>i\<bar>" 1000] by simp
next
  case (PFloat y)
  with assms show ?thesis
    by (auto simp: py_lt0_def as_num_def py_float_def float_lt_int_def float_ge_int_def
        split: pyfloat.splits)
qed (use assms in \<open>auto simp: py_lt0_def as_num_def split: if_splits\<close>)

lemma digit_char_range: "digit_char d \<in> set ''0123456789''"
proof -
  have "nat (d mod 10) < length ''0123456789''" by simp
  then show ?thesis unfolding digit_char_def by (rule nth_mem)
qed

lemma last_fixed_digits: "last (fixed_digits (Suc p) n) \<in> set ''0123456789''"
  using digit_char_range by (simp add: fixed_digits_def)

text \<open>A formatted float ends in a digit, or in the last letter of \<^verbatim>\<open>inf\<close> or \<^verbatim>\<open>nan\<close>.\<close>

lemma last_fmt_fixed: "last (fmt_fixed (Suc p) x) \<in> set ''0123456789fn''"
proof -
  have nonempty: "fixed_digits (Suc p) n \<noteq> []" for n by (simp add: fixed_digits_def)
  have "last (fixed_digits (Suc p) n) \<in> set ''0123456789fn''" for n
    using last_fixed_digits [of p n] by auto
  then show ?thesis
    using nonempty by (cases x) (simp_all add: fmt_fixed_def)
qed

lemma float_ge_int_mono: "float_ge_int x k \<Longrightarrow> j \<le> k \<Longrightarrow> float_ge_int x j"
  by (auto simp: float_ge_int_def split: pyfloat.splits)

subsection \<open>The magnitude formatter\<close>

lemma format_body_float:
  assumes "py_float v = Inr x"
  shows "format_body v =
      (if float_ge_int x 1000000000 then
         bind_exn (float_truediv x (Finite 1000000000)) (\<lambda>y. Inr (fmt_fixed 1 y @ ''B''))
       else if float_ge_int x 1000000 then
         bind_exn (float_truediv x (Finite 1000000)) (\<lambda>y. Inr (fmt_fixed 1 y @ ''M''))
       else if float_ge_int x 1000 then
         bind_exn (float_truediv x (Finite 1000)) (\<lambda>y. Inr (fmt_fixed 1 y @ ''K''))
       else Inr (fmt_fixed 2 x))"
  using assms by (simp add: format_body_def bind_exn_def)

text \<open>Once the conversion has succeeded nothing in the body raises.\<close>

lemma format_large_numbers_float:
  assumes "py_float v = Inr x"
  shows "format_large_numbers v = format_body v"
proof -
  have "\<exists>s. format_body v = Inr s"
    using float_truediv_const [of 1000000000 x] float_truediv_const [of 1000000 x]
      float_truediv_const [of 1000 x]
    by (auto simp: format_body_float [OF assms] bind_exn_def)
  then show ?thesis
    using py_float_Inr_not_None [OF assms] by (auto simp: format_large_numbers_def)
qed

lemma format_large_numbers_raise:
  assumes "py_float v = Inl e" "v \<noteq> PNone"
  shows "format_large_numbers v = (if exn_class_of e = ValueError then Inr unavailable else Inl e)"
  using assms by (simp add: format_large_numbers_def format_body_def bind_exn_def)

text \<open>
  C1. \<^verbatim>\<open>None\<close> gives the unavailable string (the literal \<^verbatim>\<open>Dato no disponible\<close> of the
  source). A numeric value, one that \<^verbatim>\<open>float\<close> converts to \<open>x\<close>, gives \<open>x / 1e9\<close> with
  one decimal and \<open>B\<close> from 1e9 on, \<open>x / 1e6\<close> with one decimal and \<open>M\<close> from 1e6 on,
  \<open>x / 1e3\<close> with one decimal and \<open>K\<close> from 1e3 on, and \<open>x\<close> with two decimals
  otherwise; 1500000000 gives \<open>1.5B\<close>, 2500 gives \<open>2.5K\<close> and 999 gives \<open>999.00\<close>.
  The quotient \<open>y\<close> is the float division of the source, see \<open>float_truediv_finite\<close>.
\<close>

theorem format_large_numbers_cases:
  "format_large_numbers PNone = Inr unavailable
   \<and> (\<forall>v x. py_float v = Inr x \<and> float_ge_int x 1000000000 \<longrightarrow>
         (\<exists>y. float_truediv x (Finite 1000000000) = Inr y
            \<and> format_large_numbers v = Inr (fmt_fixed 1 y @ ''B'')))
   \<and> (\<forall>v x. py_float v = Inr x \<and> float_ge_int x 1000000 \<and> \<not> float_ge_int x 1000000000 \<longrightarrow>
         (\<exists>y. float_truediv x (Finite 1000000) = Inr y
            \<and> format_large_numbers v = Inr (fmt_fixed 1 y @ ''M'')))
   \<and> (\<forall>v x. py_float v = Inr x \<and> float_ge_int x 1000 \<and> \<not> float_ge_int x 1000000 \<longrightarrow>
         (\<exists>y. float_truediv x (Finite 1000) = Inr y
            \<and> format_large_numbers v = Inr (fmt_fixed 1 y @ ''K'')))
   \<and> (\<forall>v x. py_float v = Inr x \<and> \<not> float_ge_int x 1000 \<longrightarrow>
         format_large_numbers v = Inr (fmt_fixed 2 x))
   \<and> format_large_numbers (PInt 1500000000) = Inr ''1.5B''
   \<and> format_large_numbers (PInt 2500) = Inr ''2.5K''
   \<and> format_large_numbers (PInt 999) = Inr ''999.00''"
proof -
  have none: "format_large_numbers PNone = Inr unavailable"
    by (simp add: format_large_numbers_def)
  have B: "\<exists>y. float_truediv x (Finite 1000000000) = Inr y
      \<and> format_large_numbers v = Inr (fmt_fixed 1 y @ ''B'')"
    if "py_float v = Inr x" "float_ge_int x 1000000000" for v x
    using format_large_numbers_float [OF that(1)] format_body_float [OF that(1)] that(2)
      float_truediv_const [of 1000000000 x]
    by (auto simp: bind_exn_def)
  have M: "\<exists>y. float_truediv x (Finite 1000000) = Inr y
      \<and> format_large_numbers v = Inr (fmt_fixed 1 y @ ''M'')"
    if "py_float v = Inr x" "float_ge_int x 1000000" "\<not> float_ge_int x 1000000000" for v x
    using format_large_numbers_float [OF that(1)] format_body_float [OF that(1)] that(2,3)
      float_truediv_const [of 1000000 x]
    by (auto simp: bind_exn_def)
  have K: "\<exists>y. float_truediv x (Finite 1000) = Inr y
      \<and> format_large_numbers v = Inr (fmt_fixed 1 y @ ''K'')"
    if "py_float v = Inr x" "float_ge_int x 1000" "\<not> float_ge_int x 1000000" for v x
  proof -
    have "\<not> float_ge_int x 1000000000"
      using that(3) float_ge_int_mono [of x 1000000000 1000000] by auto
    then show ?thesis
      using format_large_numbers_float [OF that(1)] format_body_float [OF that(1)] that(2,3)
        float_truediv_const [of 1000 x]
      by (auto simp: bind_exn_def)
  qed
  have P: "format_large_numbers v = Inr (fmt_fixed 2 x)"
    if "py_float v = Inr x" "\<not> float_ge_int x 1000" for v x
  proof -
    have "\<not> float_ge_int x 1000000000" "\<not> float_ge_int x 1000000"
      using that(2) float_ge_int_mono [of x 1000000000 1000]
        float_ge_int_mono [of x 1000000 1000] by auto
    then show ?thesis
      using format_large_numbers_float [OF that(1)] format_body_float [OF that(1)] that(2)
      by simp
  qed
  have e1: "format_large_numbers (PInt 1500000000) = Inr ''1.5B''" by code_simp
  have e2: "format_large_numbers (PInt 2500) = Inr ''2.5K''" by code_simp
  have e3: "format_large_numbers (PInt 999) = Inr ''999.00''" by code_simp
  show ?thesis using none B M K P e1 e2 e3 by blast
qed

theorem format_large_numbers_cases_witness:
  "py_float (PInt 2500) = Inr (Finite 2500)
   \<and> float_ge_int (Finite 2500) 1000 \<and> \<not> float_ge_int (Finite 2500) 1000000
   \<and> float_truediv (Finite 2500) (Finite 1000) = Inr (Finite (5 / 2))
   \<and> format_large_numbers (PInt 2500) = Inr (fmt_fixed 1 (Finite (5 / 2)) @ ''K'')"
proof -
  have h1: "py_float (PInt 2500) = Inr (Finite 2500)" by code_simp
  have h2: "float_ge_int (Finite 2500) 1000" "\<not> float_ge_int (Finite 2500) 1000000"
    by (simp_all add: float_ge_int_def)
  have h3: "float_truediv (Finite 2500) (Finite 1000) = Inr (Finite (5 / 2))" by code_simp
  from format_large_numbers_cases h1 h2
  have "\<exists>y. float_truediv (Finite 2500) (Finite 1000) = Inr y
      \<and> format_large_numbers (PInt 2500) = Inr (fmt_fixed 1 y @ ''K'')"
    by blast
  with h3 have "format_large_numbers (PInt 2500) = Inr (fmt_fixed 1 (Finite (5 / 2)) @ ''K'')"
    by auto
  with h1 h2 h3 show ?thesis by simp
qed

text \<open>
  C2, as the claim states it, fails: a list is not numeric, \<^verbatim>\<open>float\<close> raises a
  \<^verbatim>\<open>TypeError\<close> on it, the handler \<^verbatim>\<open>except ValueError\<close> does not catch that, and
  the exception leaves \<^verbatim>\<open>format_large_numbers\<close>.
\<close>

theorem format_large_numbers_list_counterexample:
  "py_float (PList []) =
     Inl (Exn TypeError
       (''float() argument must be a string or a real number, not '' @ [CHR 0x27] @ ''list''
        @ [CHR 0x27]))
   \<and> format_large_numbers (PList []) =
     Inl (Exn TypeError
       (''float() argument must be a string or a real number, not '' @ [CHR 0x27] @ ''list''
        @ [CHR 0x27]))"
  by (simp add: format_large_numbers_def format_body_def bind_exn_def py_float_def
      type_name_def exn_class_of_def)

text \<open>
  C2, amended. When the conversion by \<^verbatim>\<open>float\<close> fails with a \<^verbatim>\<open>ValueError\<close>, which
  is what a string that is no number does, the formatter returns the unavailable string.
  When it fails with another exception, the formatter raises that exception: a
  \<^verbatim>\<open>TypeError\<close> for a list or a dict, an \<^verbatim>\<open>OverflowError\<close> for an integer beyond
  the floats.
\<close>

theorem format_large_numbers_coercion_failure:
  "(\<forall>v e. py_float v = Inl e \<and> exn_class_of e = ValueError \<longrightarrow>
       format_large_numbers v = Inr unavailable)
   \<and> (\<forall>v e. v \<noteq> PNone \<and> py_float v = Inl e \<and> exn_class_of e \<noteq> ValueError \<longrightarrow>
       format_large_numbers v = Inl e)
   \<and> (\<forall>s. float_of_string s = None \<longrightarrow> format_large_numbers (PStr s) = Inr unavailable)
   \<and> (\<forall>xs. \<exists>m. format_large_numbers (PList xs) = Inl (Exn TypeError m))
   \<and> (\<forall>kvs. \<exists>m. format_large_numbers (PDict kvs) = Inl (Exn TypeError m))
   \<and> (\<forall>i x. int_to_float i = Inl x \<longrightarrow>
       format_large_numbers (PInt i) = Inl (Exn OverflowError ''int too large to convert to float''))"
proof -
  have a: "format_large_numbers v = Inr unavailable"
    if "py_float v = Inl e" "exn_class_of e = ValueError" for v e
    using that by (cases "v = PNone") (simp_all add: format_large_numbers_raise,
      simp add: format_large_numbers_def)
  have b: "format_large_numbers v = Inl e"
    if "v \<noteq> PNone" "py_float v = Inl e" "exn_class_of e \<noteq> ValueError" for v e
    using that by (simp add: format_large_numbers_raise)
  have c: "format_large_numbers (PStr s) = Inr unavailable" if "float_of_string s = None" for s
    using that a [of "PStr s"] by (simp add: py_float_def exn_class_of_def)
  have d: "\<exists>m. format_large_numbers (PList xs) = Inl (Exn TypeError m)" for xs
    using b [of "PList xs"] by (simp add: py_float_def exn_class_of_def)
  have e: "\<exists>m. format_large_numbers (PDict kvs) = Inl (Exn TypeError m)" for kvs
    using b [of "PDict kvs"] by (simp add: py_float_def exn_class_of_def)
  have f: "format_large_numbers (PInt i) = Inl (Exn OverflowError ''int too large to convert to float'')"
    if "int_to_float i = Inl x" for i x
  proof -
    from that have "int_to_float i = Inl (Exn OverflowError ''int too large to convert to float'')"
      by (auto simp: int_to_float_def Let_def split: if_splits)
    then show ?thesis
      using b [of "PInt i" "Exn OverflowError ''int too large to convert to float''"]
      by (simp add: py_float_def exn_class_of_def)
  qed
  show ?thesis using a b c d e f by blast
qed

theorem format_large_numbers_coercion_failure_witness:
  "float_of_string ''abc'' = None
   \<and> py_float (PStr ''abc'') =
        Inl (Exn ValueError (''could not convert string to float: '' @ [CHR 0x27] @ ''abc''
          @ [CHR 0x27]))
   \<and> format_large_numbers (PStr ''abc'') = Inr unavailable"
proof -
  have h: "float_of_string ''abc'' = None" by code_simp
  have r: "repr_str ''abc'' = [CHR 0x27] @ ''abc'' @ [CHR 0x27]" by code_simp
  from format_large_numbers_coercion_failure h
  have "format_large_numbers (PStr ''abc'') = Inr unavailable" by blast
  with h r show ?thesis by (simp add: py_float_def)
qed

text \<open>
  C3. The thresholds are compared with the value as it is, not with its magnitude:
  a numeric value below zero, whatever its size, is formatted with two decimals, and the
  result carries none of the suffixes \<open>K\<close>, \<open>M\<close>, \<open>B\<close>.
\<close>

theorem format_large_numbers_negative:
  "(\<forall>v x. py_lt0 v = Inr True \<and> py_float v = Inr x \<longrightarrow>
       format_large_numbers v = Inr (fmt_fixed 2 x)
       \<and> last (fmt_fixed 2 x) \<notin> {CHR ''K'', CHR ''M'', CHR ''B''})
   \<and> format_large_numbers (PInt (- 2500)) = Inr ''-2500.00''
   \<and> format_large_numbers (PInt (- 2500000)) = Inr ''-2500000.00''
   \<and> format_large_numbers (PInt (- 1500000000)) = Inr ''-1500000000.00''"
proof -
  have g: "format_large_numbers v = Inr (fmt_fixed 2 x)
      \<and> last (fmt_fixed 2 x) \<notin> {CHR ''K'', CHR ''M'', CHR ''B''}"
    if "py_lt0 v = Inr True" "py_float v = Inr x" for v x
  proof -
    have n: "\<not> float_ge_int x 1000" using that by (rule py_lt0_not_ge)
    then have "\<not> float_ge_int x 1000000000" "\<not> float_ge_int x 1000000"
      using float_ge_int_mono [of x 1000000000 1000] float_ge_int_mono [of x 1000000 1000]
      by auto
    with n have "format_large_numbers v = Inr (fmt_fixed 2 x)"
      using format_large_numbers_float [OF that(2)] format_body_float [OF that(2)] by simp
    moreover have "last (fmt_fixed (Suc 1) x) \<in> set ''0123456789fn''"
      by (rule last_fmt_fixed)
    then have "last (fmt_fixed 2 x) \<in> set ''0123456789fn''"
      by (simp only: Suc_1)
    then have "last (fmt_fixed 2 x) \<notin> {CHR ''K'', CHR ''M'', CHR ''B''}"
      by auto
    ultimately show ?thesis by simp
  qed
  have e1: "format_large_numbers (PInt (- 2500)) = Inr ''-2500.00''" by code_simp
  have e2: "format_large_numbers (PInt (- 2500000)) = Inr ''-2500000.00''" by code_simp
  have e3: "format_large_numbers (PInt (- 1500000000)) = Inr ''-1500000000.00''" by code_simp
  show ?thesis using g e1 e2 e3 by blast
qed

theorem format_large_numbers_negative_witness:
  "py_lt0 (PFloat (Finite (- 5000))) = Inr True
   \<and> py_float (PFloat (Finite (- 5000))) = Inr (Finite (- 5000))
   \<and> format_large_numbers (PFloat (Finite (- 5000))) = Inr ''-5000.00''
   \<and> last ''-5000.00'' \<notin> {CHR ''K'', CHR ''M'', CHR ''B''}"
proof -
  have h1: "py_lt0 (PFloat (Finite (- 5000))) = Inr True"
    by (simp add: py_lt0_def as_num_def float_lt_int_def)
  have h2: "py_float (PFloat (Finite (- 5000))) = Inr (Finite (- 5000))"
    by (simp add: py_float_def)
  have f: "fmt_fixed 2 (Finite (- 5000)) = ''-5000.00''" by code_simp
  from format_large_numbers_negative h1 h2
  have "format_large_numbers (PFloat (Finite (- 5000))) = Inr (fmt_fixed 2 (Finite (- 5000)))
      \<and> last (fmt_fixed 2 (Finite (- 5000))) \<notin> {CHR ''K'', CHR ''M'', CHR ''B''}"
    by blast
  with h1 h2 f show ?thesis by simp
qed

subsection \<open>The debt change\<close>

lemma py_lt0_imp_not_gt0: "py_lt0 d = Inr True \<Longrightarrow> py_gt0 d = Inr False"
  by (auto simp: py_lt0_def py_gt0_def float_lt_int_def float_gt_int_def
      split: option.splits num.splits pyfloat.splits)

text \<open>
  C5, as the claim states it, fails on the text of the answers: for prior 100 and
  current 150 the source returns \<^verbatim>\<open>Aumento de 50.00\<close>, its own literal, and not
  \<^verbatim>\<open>Increase of 50.00\<close>.
\<close>

theorem calculate_debt_change_text_counterexample:
  "calculate_debt_change (PInt 100) (PInt 150) = ''Aumento de 50.00''
   \<and> calculate_debt_change (PInt 100) (PInt 150) \<noteq> ''Increase of 50.00''"
proof -
  have "calculate_debt_change (PInt 100) (PInt 150) = ''Aumento de 50.00''" by code_simp
  then show ?thesis by simp
qed

text \<open>
  C5, amended: the claim with the literals of the source. With \<open>d\<close> the difference
  current minus prior, the result is \<^verbatim>\<open>Aumento de\<close> and the formatted \<open>d\<close> when
  \<open>d > 0\<close>, \<^verbatim>\<open>Disminuci\<close>\<open>\<dots>\<close>\<^verbatim>\<open>n de\<close> and the formatted \<open>\<bar>d\<bar>\<close> when \<open>d < 0\<close>, and
  \<^verbatim>\<open>Sin cambio\<close> when \<open>d\<close> is zero. The function returns in every case: when the
  subtraction, a comparison or the formatting raises, the result is the error prefix
  followed by the message of the exception.
\<close>

theorem calculate_debt_change_cases:
  "(\<forall>a b d s. py_sub b a = Inr d \<and> py_gt0 d = Inr True \<and> format_large_numbers d = Inr s \<longrightarrow>
       calculate_debt_change a b = ''Aumento de '' @ s)
   \<and> (\<forall>a b d m s. py_sub b a = Inr d \<and> py_lt0 d = Inr True \<and> py_abs d = Inr m
         \<and> format_large_numbers m = Inr s \<longrightarrow>
       calculate_debt_change a b = ''Disminuci'' @ [CHR 0xF3] @ ''n de '' @ s)
   \<and> (\<forall>a b d. py_sub b a = Inr d \<and> d \<in> {PInt 0, PFloat (Finite 0), PFloat NegZero} \<longrightarrow>
       calculate_debt_change a b = ''Sin cambio'')
   \<and> (\<forall>a b e. debt_change_body a b = Inl e \<longrightarrow>
       calculate_debt_change a b = ''Error en el c'' @ [CHR 0xE1] @ ''lculo: '' @ exn_text e)
   \<and> (\<forall>a b. (\<exists>s. debt_change_body a b = Inr s) \<or> (\<exists>e. debt_change_body a b = Inl e))
   \<and> calculate_debt_change (PInt 100) (PInt 150) = ''Aumento de 50.00''
   \<and> calculate_debt_change (PInt 150) (PInt 100) = ''Disminuci'' @ [CHR 0xF3] @ ''n de 50.00''
   \<and> calculate_debt_change (PInt 100) (PInt 100) = ''Sin cambio''"
proof -
  have inc: "calculate_debt_change a b = ''Aumento de '' @ s"
    if "py_sub b a = Inr d" "py_gt0 d = Inr True" "format_large_numbers d = Inr s" for a b d s
    using that by (simp add: calculate_debt_change_def debt_change_body_def bind_exn_def)
  have dec: "calculate_debt_change a b = ''Disminuci'' @ [CHR 0xF3] @ ''n de '' @ s"
    if "py_sub b a = Inr d" "py_lt0 d = Inr True" "py_abs d = Inr m"
      "format_large_numbers m = Inr s" for a b d m s
    using that py_lt0_imp_not_gt0 [OF that(2)]
    by (simp add: calculate_debt_change_def debt_change_body_def bind_exn_def)
  have same: "calculate_debt_change a b = ''Sin cambio''"
    if "py_sub b a = Inr d" "d \<in> {PInt 0, PFloat (Finite 0), PFloat NegZero}" for a b d
    using that
    by (auto simp: calculate_debt_change_def debt_change_body_def bind_exn_def py_gt0_def
        py_lt0_def as_num_def float_gt_int_def float_lt_int_def)
  have err: "calculate_debt_change a b = ''Error en el c'' @ [CHR 0xE1] @ ''lculo: '' @ exn_text e"
    if "debt_change_body a b = Inl e" for a b e
    using that by (simp add: calculate_debt_change_def)
  have tot: "(\<exists>s. debt_change_body a b = Inr s) \<or> (\<exists>e. debt_change_body a b = Inl e)" for a b
    by (cases "debt_change_body a b") auto
  have e1: "calculate_debt_change (PInt 100) (PInt 150) = ''Aumento de 50.00''" by code_simp
  have e2: "calculate_debt_change (PInt 150) (PInt 100) = ''Disminuci'' @ [CHR 0xF3] @ ''n de 50.00''"
    by code_simp
  have e3: "calculate_debt_change (PInt 100) (PInt 100) = ''Sin cambio''" by code_simp
  show ?thesis using inc dec same err tot e1 e2 e3 by blast
qed

theorem calculate_debt_change_cases_witness:
  "py_sub (PInt 100) (PInt 150) = Inr (PInt (- 50))
   \<and> py_lt0 (PInt (- 50)) = Inr True
   \<and> py_abs (PInt (- 50)) = Inr (PInt 50)
   \<and> format_large_numbers (PInt 50) = Inr ''50.00''
   \<and> calculate_debt_change (PInt 150) (PInt 100) = ''Disminuci'' @ [CHR 0xF3] @ ''n de '' @ ''50.00''
   \<and> debt_change_body (PStr ''a'') (PInt 1) =
        Inl (binop_error ''-'' (PInt 1) (PStr ''a''))
   \<and> calculate_debt_change (PStr ''a'') (PInt 1) =
        ''Error en el c'' @ [CHR 0xE1] @ ''lculo: '' @ exn_text (binop_error ''-'' (PInt 1) (PStr ''a''))"
proof -
  have h1: "py_sub (PInt 100) (PInt 150) = Inr (PInt (- 50))"
    by (simp add: py_sub_def as_num_def)
  have h2: "py_lt0 (PInt (- 50)) = Inr True" by (simp add: py_lt0_def as_num_def)
  have h3: "py_abs (PInt (- 50)) = Inr (PInt 50)" by (simp add: py_abs_def as_num_def)
  have h4: "format_large_numbers (PInt 50) = Inr ''50.00''" by code_simp
  have h5: "debt_change_body (PStr ''a'') (PInt 1) = Inl (binop_error ''-'' (PInt 1) (PStr ''a''))"
    by (simp add: debt_change_body_def py_sub_def as_num_def bind_exn_def)
  from calculate_debt_change_cases h1 h2 h3 h4
  have c1: "calculate_debt_change (PInt 150) (PInt 100)
      = ''Disminuci'' @ [CHR 0xF3] @ ''n de '' @ ''50.00''"
    by blast
  from calculate_debt_change_cases h5
  have c2: "calculate_debt_change (PStr ''a'') (PInt 1) =
      ''Error en el c'' @ [CHR 0xE1] @ ''lculo: '' @ exn_text (binop_error ''-'' (PInt 1) (PStr ''a''))"
    by blast
  from h1 h2 h3 h4 h5 c1 c2 show ?thesis by blast
qed

subsection \<open>The fundamental data\<close>

lemma format_large_numbers_unavailable:
  "format_large_numbers (PStr unavailable) = Inr unavailable"
proof -
  have "float_of_string unavailable = None" unfolding unavailable_def by code_simp
  then show ?thesis
    by (simp add: format_large_numbers_def format_body_def bind_exn_def py_float_def
        exn_class_of_def)
qed

lemma safe_get_missing: "map_of info f = None \<Longrightarrow> safe_get info f d = d"
  by (simp add: safe_get_def)

lemma fundamental_body_all_missing:
  assumes "\<forall>f \<in> set looked_up_fields. map_of info f = None"
  shows "fundamental_body info =
      Inr (map (\<lambda>l. (l, PStr unavailable)) metric_labels
            @ [(''Debt Comparison'', PDict [(''Deuda Anterior'', PStr unavailable)])])"
proof -
  from assms have g: "safe_get info f d = d" if "f \<in> set looked_up_fields" for f d
    using that safe_get_missing by blast
  have dy: "dividend_yield_value info = Inr (PStr unavailable)"
    by (simp add: dividend_yield_value_def g looked_up_fields_def)
  have grp: "debt_comparison_group info = Inr [(''Deuda Anterior'', PStr unavailable)]"
    by (simp add: debt_comparison_group_def g looked_up_fields_def
        format_large_numbers_unavailable bind_exn_def truthy_def)
  show ?thesis
    by (simp add: fundamental_body_def dy grp g looked_up_fields_def
        format_large_numbers_unavailable bind_exn_def dividend_yield_entry_def metric_labels_def)
qed

text \<open>
  C6. When the vendor's mapping has none of the looked-up fields, the function prints
  nothing and returns the fourteen metrics, each with the unavailable string (the literal
  \<^verbatim>\<open>Dato no disponible\<close>), followed by the group \<^verbatim>\<open>Debt Comparison\<close>; the group is there and
  holds the prior value only, with no entry for the change (\<^verbatim>\<open>Cambio Deuda\<close> in the source).
\<close>

theorem fetch_fundamental_data_all_missing:
  "\<forall>ticker info. (\<forall>f \<in> set looked_up_fields. map_of info f = None) \<longrightarrow>
     fetch_fundamental_data ticker (Inr info) =
       ([], map (\<lambda>l. (l, PStr unavailable)) metric_labels
            @ [(''Debt Comparison'', PDict [(''Deuda Anterior'', PStr unavailable)])])
     \<and> (\<forall>l \<in> set metric_labels.
          map_of (snd (fetch_fundamental_data ticker (Inr info))) l = Some (PStr unavailable))
     \<and> (\<exists>group. map_of (snd (fetch_fundamental_data ticker (Inr info))) ''Debt Comparison''
                    = Some (PDict group)
           \<and> map_of group ''Cambio Deuda'' = None)"
proof (intro allI impI)
  fix ticker :: string and info :: pydict
  assume "\<forall>f \<in> set looked_up_fields. map_of info f = None"
  then have r: "fetch_fundamental_data ticker (Inr info) =
       ([], map (\<lambda>l. (l, PStr unavailable)) metric_labels
            @ [(''Debt Comparison'', PDict [(''Deuda Anterior'', PStr unavailable)])])"
    by (simp add: fetch_fundamental_data_def bind_exn_def fundamental_body_all_missing)
  have m: "\<forall>l \<in> set metric_labels.
      map_of (snd (fetch_fundamental_data ticker (Inr info))) l = Some (PStr unavailable)"
    unfolding r by (simp add: metric_labels_def)
  have g: "\<exists>group. map_of (snd (fetch_fundamental_data ticker (Inr info))) ''Debt Comparison''
                    = Some (PDict group)
           \<and> map_of group ''Cambio Deuda'' = None"
    unfolding r by (simp add: metric_labels_def)
  from r m g show "fetch_fundamental_data ticker (Inr info) =
       ([], map (\<lambda>l. (l, PStr unavailable)) metric_labels
            @ [(''Debt Comparison'', PDict [(''Deuda Anterior'', PStr unavailable)])])
     \<and> (\<forall>l \<in> set metric_labels.
          map_of (snd (fetch_fundamental_data ticker (Inr info))) l = Some (PStr unavailable))
     \<and> (\<exists>group. map_of (snd (fetch_fundamental_data ticker (Inr info))) ''Debt Comparison''
                    = Some (PDict group)
           \<and> map_of group ''Cambio Deuda'' = None)"
    by blast
qed

theorem fetch_fundamental_data_all_missing_witness:
  "list_all (\<lambda>f. map_of [(''symbol'', PStr ''AAPL'')] f = None) looked_up_fields
   \<and> fetch_fundamental_data ''AAPL'' (Inr [(''symbol'', PStr ''AAPL'')]) =
       ([], map (\<lambda>l. (l, PStr unavailable)) metric_labels
            @ [(''Debt Comparison'', PDict [(''Deuda Anterior'', PStr unavailable)])])
   \<and> map_of (snd (fetch_fundamental_data ''AAPL'' (Inr [(''symbol'', PStr ''AAPL'')])))
        ''Beta'' = Some (PStr unavailable)"
proof -
  have h: "\<forall>f \<in> set looked_up_fields. map_of [(''symbol'', PStr ''AAPL'')] f = None"
    by (simp add: looked_up_fields_def)
  have b: "''Beta'' \<in> set metric_labels" by (simp add: metric_labels_def)
  from fetch_fundamental_data_all_missing h b
  have "fetch_fundamental_data ''AAPL'' (Inr [(''symbol'', PStr ''AAPL'')]) =
       ([], map (\<lambda>l. (l, PStr unavailable)) metric_labels
            @ [(''Debt Comparison'', PDict [(''Deuda Anterior'', PStr unavailable)])])
   \<and> map_of (snd (fetch_fundamental_data ''AAPL'' (Inr [(''symbol'', PStr ''AAPL'')])))
        ''Beta'' = Some (PStr unavailable)"
    by blast
  moreover from h
  have "list_all (\<lambda>f. map_of [(''symbol'', PStr ''AAPL'')] f = None) looked_up_fields"
    by (simp only: list_all_iff)
  ultimately show ?thesis by blast
qed

lemma fundamental_body_dividend:
  assumes "fundamental_body info = Inr d"
  shows "\<exists>y. dividend_yield_value info = Inr y
    \<and> map_of d ''Dividend Yield'' = Some (dividend_yield_entry y)"
  using assms
  by (auto simp: fundamental_body_def bind_exn_def Let_def update_conv' split: sum.splits)

text \<open>
  C9. When the vendor's mapping has the key \<^verbatim>\<open>dividendYield\<close> with the value
  \<^verbatim>\<open>None\<close>, the multiplication by 100 is skipped, the value still differs from the
  unavailable string, and the entry \<^verbatim>\<open>Dividend Yield\<close> is the string \<^verbatim>\<open>None%\<close>. The
  mapping that the function returns holds that entry, unless the computation of another
  entry raised and the handler returned the empty mapping.
\<close>

theorem fetch_fundamental_data_dividend_none:
  "\<forall>ticker info. map_of info ''dividendYield'' = Some PNone \<longrightarrow>
     dividend_yield_value info = Inr PNone
     \<and> dividend_yield_entry PNone = PStr ''None%''
     \<and> dividend_yield_entry PNone \<noteq> PStr unavailable
     \<and> ((\<exists>e. fundamental_body info = Inl e)
            \<and> snd (fetch_fundamental_data ticker (Inr info)) = []
         \<or> map_of (snd (fetch_fundamental_data ticker (Inr info))) ''Dividend Yield''
             = Some (PStr ''None%''))"
proof (intro allI impI)
  fix ticker :: string and info :: pydict
  assume a: "map_of info ''dividendYield'' = Some PNone"
  have v: "dividend_yield_value info = Inr PNone"
    using a by (simp add: dividend_yield_value_def safe_get_def)
  have e: "dividend_yield_entry PNone = PStr ''None%''"
    by (simp add: dividend_yield_entry_def py_str_def)
  have n: "dividend_yield_entry PNone \<noteq> PStr unavailable"
    by (simp add: e unavailable_def)
  have r: "(\<exists>e. fundamental_body info = Inl e)
            \<and> snd (fetch_fundamental_data ticker (Inr info)) = []
         \<or> map_of (snd (fetch_fundamental_data ticker (Inr info))) ''Dividend Yield''
             = Some (PStr ''None%'')"
  proof (cases "fundamental_body info")
    case (Inl x)
    then show ?thesis by (simp add: fetch_fundamental_data_def bind_exn_def)
  next
    case (Inr d)
    from fundamental_body_dividend [OF Inr] v e
    have "map_of d ''Dividend Yield'' = Some (PStr ''None%'')" by auto
    with Inr show ?thesis by (simp add: fetch_fundamental_data_def bind_exn_def)
  qed
  from v e n r show "dividend_yield_value info = Inr PNone
     \<and> dividend_yield_entry PNone = PStr ''None%''
     \<and> dividend_yield_entry PNone \<noteq> PStr unavailable
     \<and> ((\<exists>e. fundamental_body info = Inl e)
            \<and> snd (fetch_fundamental_data ticker (Inr info)) = []
         \<or> map_of (snd (fetch_fundamental_data ticker (Inr info))) ''Dividend Yield''
             = Some (PStr ''None%''))"
    by blast
qed

theorem fetch_fundamental_data_dividend_none_witness:
  "map_of [(''dividendYield'', PNone)] ''dividendYield'' = Some PNone
   \<and> map_of (snd (fetch_fundamental_data ''AAPL'' (Inr [(''dividendYield'', PNone)])))
        ''Dividend Yield'' = Some (PStr ''None%'')"
proof -
  have h: "map_of [(''dividendYield'', PNone)] ''dividendYield'' = Some PNone" by simp
  have "\<not> isl (fundamental_body [(''dividendYield'', PNone)])" by code_simp
  then have b: "\<not> (\<exists>e. fundamental_body [(''dividendYield'', PNone)] = Inl e)" by auto
  from fetch_fundamental_data_dividend_none h b
  have "map_of (snd (fetch_fundamental_data ''AAPL'' (Inr [(''dividendYield'', PNone)])))
        ''Dividend Yield'' = Some (PStr ''None%'')"
    by blast
  with h show ?thesis by simp
qed

subsection \<open>The debt comparison\<close>

lemma filter_label_None:
  "map_of bs l = None \<Longrightarrow> filter (\<lambda>r. fst r = l) bs = []"
  by (induction bs) (auto split: if_splits)

lemma filter_label_Some:
  "map_of bs l = Some r \<Longrightarrow> \<exists>more. map snd (filter (\<lambda>p. fst p = l) bs) = r # more"
  by (induction bs) (auto split: if_splits)

lemma loc_or_none_absent: "map_of bs l = None \<Longrightarrow> loc_or_none bs l = NoRow"
  by (simp add: loc_or_none_def filter_label_None)

lemma loc_or_none_present:
  assumes "map_of bs l = Some r"
  shows "loc_or_none bs l = Series r \<and> label_count bs l = 1
    \<or> (\<exists>rows. loc_or_none bs l = SubFrame rows \<and> 2 \<le> length rows \<and> 2 \<le> label_count bs l)"
proof -
  obtain more where m: "map snd (filter (\<lambda>p. fst p = l) bs) = r # more"
    using filter_label_Some [OF assms] by auto
  then have len: "label_count bs l = Suc (length more)"
    unfolding label_count_def by (metis length_Cons length_map)
  show ?thesis
  proof (cases more)
    case Nil
    with m len show ?thesis by (simp add: loc_or_none_def)
  next
    case (Cons a list)
    with m len show ?thesis by (simp add: loc_or_none_def)
  qed
qed

lemma loc_or_none_duplicated:
  assumes "2 \<le> label_count bs l"
  shows "\<exists>rows. loc_or_none bs l = SubFrame rows \<and> 2 \<le> length rows"
proof (cases "map_of bs l")
  case None
  with assms show ?thesis by (simp add: label_count_def filter_label_None)
next
  case (Some r)
  from loc_or_none_present [OF Some] assms show ?thesis by auto
qed

lemma iloc_or_none_SubFrame:
  "2 \<le> length rows \<Longrightarrow> iloc_or_none (SubFrame rows) (Suc 0) = Inr (RowSeries (rows ! 1))"
  "2 \<le> length rows \<Longrightarrow> iloc_or_none (SubFrame rows) 0 = Inr (RowSeries (rows ! 0))"
  by (auto simp: iloc_or_none_def)

lemma add_debt_readings_RowSeries:
  "add_debt_readings k1 k2 k3 (RowSeries r) y dc = Inl series_truth_error"
  by (simp add: add_debt_readings_def)

lemma duplicated_label_raises:
  assumes "2 \<le> label_count bs ''Total Debt'' \<or> 2 \<le> label_count bs ''Long Term Debt''"
  shows "\<exists>e. debt_comparison_body bs = Inl e"
  using assms
proof
  assume "2 \<le> label_count bs ''Total Debt''"
  from loc_or_none_duplicated [OF this] obtain rows
    where "loc_or_none bs ''Total Debt'' = SubFrame rows" "2 \<le> length rows" by blast
  then show ?thesis
    by (auto simp: debt_comparison_body_def Let_def bind_exn_def iloc_or_none_SubFrame
        add_debt_readings_RowSeries split: sum.splits)
next
  assume "2 \<le> label_count bs ''Long Term Debt''"
  from loc_or_none_duplicated [OF this] obtain rows
    where "loc_or_none bs ''Long Term Debt'' = SubFrame rows" "2 \<le> length rows" by blast
  then show ?thesis
    by (auto simp: debt_comparison_body_def Let_def bind_exn_def iloc_or_none_SubFrame
        add_debt_readings_RowSeries split: sum.splits)
qed

lemma short_series_raises:
  "length r < 2 \<Longrightarrow> \<exists>e. iloc_or_none (Series r) 1 = Inl e"
  by (simp add: iloc_or_none_def iloc_def bind_exn_def)

lemma short_row_raises:
  assumes "r \<in> set (debt_rows bs)" "length r < 2"
  shows "\<exists>e. debt_comparison_body bs = Inl e"
proof -
  from assms(1) consider "map_of bs ''Total Debt'' = Some r" | "map_of bs ''Long Term Debt'' = Some r"
    by (auto simp: debt_rows_def split: option.splits)
  then show ?thesis
  proof cases
    case 1
    from loc_or_none_present [OF 1] show ?thesis
    proof
      assume "loc_or_none bs ''Total Debt'' = Series r \<and> label_count bs ''Total Debt'' = 1"
      with short_series_raises [OF assms(2)] show ?thesis
        by (auto simp: debt_comparison_body_def bind_exn_def Let_def)
    next
      assume "\<exists>rows. loc_or_none bs ''Total Debt'' = SubFrame rows \<and> 2 \<le> length rows
        \<and> 2 \<le> label_count bs ''Total Debt''"
      then show ?thesis using duplicated_label_raises by blast
    qed
  next
    case 2
    from loc_or_none_present [OF 2] show ?thesis
    proof
      assume "loc_or_none bs ''Long Term Debt'' = Series r \<and> label_count bs ''Long Term Debt'' = 1"
      with short_series_raises [OF assms(2)] show ?thesis
        by (auto simp: debt_comparison_body_def bind_exn_def Let_def split: sum.splits)
    next
      assume "\<exists>rows. loc_or_none bs ''Long Term Debt'' = SubFrame rows \<and> 2 \<le> length rows
        \<and> 2 \<le> label_count bs ''Long Term Debt''"
      then show ?thesis using duplicated_label_raises by blast
    qed
  qed
qed

lemma format_accepted: "accepted v \<Longrightarrow> format_large_numbers v = Inr (formatted v)"
  by (auto simp: accepted_def formatted_def split: sum.splits)

lemma accepted_None: "accepted PNone"
  by (simp add: accepted_def format_large_numbers_def)

lemma accepted_converted: "py_float v = Inr x \<Longrightarrow> accepted v"
  using format_large_numbers_float [of v x] format_body_float [of v x]
    float_truediv_const [of 1000000000 x] float_truediv_const [of 1000000 x]
    float_truediv_const [of 1000 x]
  by (auto simp: bind_exn_def accepted_def)

lemma accepted_float: "accepted (PFloat x)"
  by (rule accepted_converted [of _ x]) (simp add: py_float_def)

lemma accepted_bool: "accepted (PBool b)"
  by (rule accepted_converted [of _ "Finite (if b then 1 else 0)"]) (simp add: py_float_def)

lemma accepted_str: "accepted (PStr s)"
proof (cases "float_of_string s")
  case None
  then show ?thesis
    by (simp add: accepted_def format_large_numbers_def format_body_def bind_exn_def
        py_float_def exn_class_of_def)
next
  case (Some x)
  then show ?thesis by (intro accepted_converted [of _ x]) (simp add: py_float_def)
qed

lemma ilog2_of_int_le:
  assumes "0 < a" "a < 2 ^ n"
  shows "ilog2 (of_int a) < int n"
proof -
  have "bitlen a \<le> int n" using assms by (simp add: bitlen_le_iff_power)
  moreover have "bitlen 1 = 1" by (simp add: bitlen_alt_def)
  ultimately show ?thesis
    by (simp add: ilog2_def Let_def quotient_of_int)
qed

lemma accepted_int:
  assumes "\<bar>i\<bar> < 2 ^ 63"
  shows "accepted (PInt i)"
proof -
  have "\<not> float_is_inf (round_double (i < 0) (of_int \<bar>i\<bar>))"
  proof (cases "i = 0")
    case True
    then show ?thesis
      by (simp add: round_double_def Let_def round_half_even_def float_is_inf_def)
  next
    case False
    then have "0 < \<bar>i\<bar>" by simp
    from ilog2_of_int_le [OF this assms] have "ilog2 (of_int \<bar>i\<bar>) < 63" by simp
    then have "max (ilog2 (of_int \<bar>i\<bar>)) (- 1022) < 1023" by simp
    then show ?thesis
      by (auto simp: round_double_def Let_def float_is_inf_def)
  qed
  then obtain x where "int_to_float i = Inr x" by (auto simp: int_to_float_def Let_def)
  then show ?thesis by (intro accepted_converted [of _ x]) (simp add: py_float_def)
qed

lemma add_debt_entries_accepted:
  assumes "accepted a" "accepted b"
  shows "add_debt_entries k1 k2 k3 a b dc =
    Inr (if truthy a \<and> truthy b
         then AList.update k3 (PStr (calculate_debt_change a b))
                (AList.update k2 (PStr (formatted b))
                  (AList.update k1 (PStr (formatted a)) dc))
         else dc)"
  using format_accepted [OF assms(1)] format_accepted [OF assms(2)]
  by (simp add: add_debt_entries_def bind_exn_def)

lemma add_debt_readings_accepted:
  assumes "accepted a" "accepted b"
  shows "add_debt_readings k1 k2 k3 (Scalar a) (Scalar b) dc =
    Inr (if truthy a \<and> truthy b
         then AList.update k3 (PStr (calculate_debt_change a b))
                (AList.update k2 (PStr (formatted b))
                  (AList.update k1 (PStr (formatted a)) dc))
         else dc)"
  by (simp add: add_debt_readings_def add_debt_entries_accepted [OF assms])

text \<open>
  The two cells read for a label that stands in the index at most once, and the entries
  emitted for it.
\<close>

lemma debt_row_readings:
  assumes "label_count bs l \<le> 1"
    and "\<forall>r. map_of bs l = Some r \<longrightarrow> 2 \<le> length r \<and> accepted (r ! 0) \<and> accepted (r ! 1)"
  shows "\<exists>a b. iloc_or_none (loc_or_none bs l) (Suc 0) = Inr (Scalar a)
    \<and> iloc_or_none (loc_or_none bs l) 0 = Inr (Scalar b)
    \<and> accepted a \<and> accepted b
    \<and> emitted_debt_entries bs l k1 k2 k3
       = (if truthy a \<and> truthy b then
            [(k1, PStr (formatted a)), (k2, PStr (formatted b)),
             (k3, PStr (calculate_debt_change a b))]
          else [])"
proof (cases "map_of bs l")
  case None
  then show ?thesis
    by (simp add: loc_or_none_absent iloc_or_none_def accepted_None truthy_def
        emitted_debt_entries_def)
next
  case (Some r)
  with assms(2) have len: "2 \<le> length r" and acc: "accepted (r ! 0)" "accepted (r ! 1)"
    by auto
  from loc_or_none_present [OF Some] assms(1) have s: "loc_or_none bs l = Series r" by auto
  have i: "iloc_or_none (Series r) (Suc 0) = Inr (Scalar (r ! 1))"
    "iloc_or_none (Series r) 0 = Inr (Scalar (r ! 0))"
    using len by (auto simp: iloc_or_none_def iloc_def bind_exn_def)
  show ?thesis
    using i acc by (simp add: s Some emitted_debt_entries_def)
qed

lemma debt_comparison_body_emitted:
  assumes "label_count bs ''Total Debt'' \<le> 1" "label_count bs ''Long Term Debt'' \<le> 1"
    and "\<forall>r \<in> set (debt_rows bs). 2 \<le> length r \<and> accepted (r ! 0) \<and> accepted (r ! 1)"
  shows "debt_comparison_body bs =
      Inr (emitted_debt_entries bs ''Total Debt'' ''Total Debt Last Year''
                ''Total Debt This Year'' ''Debt Change''
              @ emitted_debt_entries bs ''Long Term Debt'' ''Long Term Debt Last Year''
                  ''Long Term Debt This Year'' ''Long Term Debt Change'')"
proof -
  have t: "\<forall>r. map_of bs ''Total Debt'' = Some r \<longrightarrow>
      2 \<le> length r \<and> accepted (r ! 0) \<and> accepted (r ! 1)"
    using assms(3) by (auto simp: debt_rows_def)
  have l: "\<forall>r. map_of bs ''Long Term Debt'' = Some r \<longrightarrow>
      2 \<le> length r \<and> accepted (r ! 0) \<and> accepted (r ! 1)"
    using assms(3) by (auto simp: debt_rows_def)
  from debt_row_readings [OF assms(1) t, of "''Total Debt Last Year''" "''Total Debt This Year''"
      "''Debt Change''"]
  obtain a b where ab: "iloc_or_none (loc_or_none bs ''Total Debt'') (Suc 0) = Inr (Scalar a)"
      "iloc_or_none (loc_or_none bs ''Total Debt'') 0 = Inr (Scalar b)" "accepted a" "accepted b"
      "emitted_debt_entries bs ''Total Debt'' ''Total Debt Last Year''
                ''Total Debt This Year'' ''Debt Change''
       = (if truthy a \<and> truthy b then
            [(''Total Debt Last Year'', PStr (formatted a)),
             (''Total Debt This Year'', PStr (formatted b)),
             (''Debt Change'', PStr (calculate_debt_change a b))]
          else [])"
    by blast
  from debt_row_readings [OF assms(2) l, of "''Long Term Debt Last Year''"
      "''Long Term Debt This Year''" "''Long Term Debt Change''"]
  obtain c d where cd: "iloc_or_none (loc_or_none bs ''Long Term Debt'') (Suc 0) = Inr (Scalar c)"
      "iloc_or_none (loc_or_none bs ''Long Term Debt'') 0 = Inr (Scalar d)"
      "accepted c" "accepted d"
      "emitted_debt_entries bs ''Long Term Debt'' ''Long Term Debt Last Year''
                  ''Long Term Debt This Year'' ''Long Term Debt Change''
       = (if truthy c \<and> truthy d then
            [(''Long Term Debt Last Year'', PStr (formatted c)),
             (''Long Term Debt This Year'', PStr (formatted d)),
             (''Long Term Debt Change'', PStr (calculate_debt_change c d))]
          else [])"
    by blast
  show ?thesis
    unfolding ab(5) cd(5)
    using ab(1,2) cd(1,2)
    by (simp add: debt_comparison_body_def bind_exn_def Let_def
        add_debt_readings_accepted [OF ab(3,4)] add_debt_readings_accepted [OF cd(3,4)])
qed

lemma length_debt_comparison_body:
  "debt_comparison_body bs = Inr d \<Longrightarrow> length d \<in> {0, 3, 6}"
  by (auto simp: debt_comparison_body_def add_debt_readings_def add_debt_entries_def
      bind_exn_def Let_def split: if_splits sum.splits reading.splits)

text \<open>
  C7, as the claim states it, fails. A NaN is the null of the vendor's table, so the
  specification expects no entries for a debt whose current value is a NaN; the truth
  test of lines 138 and 143 takes a NaN for a true value, and the function emits the
  three entries, with \<^verbatim>\<open>nan\<close> for the value and \<^verbatim>\<open>Sin cambio\<close> for the change. And
  a table with one period only is not passed over without error: the read at position 1
  raises, and the function prints the error and returns the empty mapping.
\<close>

theorem fetch_debt_comparison_nan_counterexample:
  "is_null (PFloat NaN)
   \<and> expected_debt_entries [(''Total Debt'', [PFloat NaN, PFloat (Finite 100)])]
        ''Total Debt'' ''Total Debt Last Year'' ''Total Debt This Year'' ''Debt Change'' = []
   \<and> fetch_debt_comparison ''AAPL''
        (Inr [(''Total Debt'', [PFloat NaN, PFloat (Finite 100)])]) =
       ([], [(''Total Debt Last Year'', PStr ''100.00''),
             (''Total Debt This Year'', PStr ''nan''),
             (''Debt Change'', PStr ''Sin cambio'')])
   \<and> fetch_debt_comparison ''AAPL'' (Inr [(''Total Debt'', [PFloat (Finite 100)])]) =
       ([''Error al obtener la comparaci'' @ [CHR 0xF3] @ ''n de deuda para AAPL: ''
         @ ''single positional indexer is out-of-bounds''], [])"
proof -
  have a: "is_null (PFloat NaN)" by (simp add: is_null_def)
  have b: "expected_debt_entries [(''Total Debt'', [PFloat NaN, PFloat (Finite 100)])]
        ''Total Debt'' ''Total Debt Last Year'' ''Total Debt This Year'' ''Debt Change'' = []"
    by (simp add: expected_debt_entries_def present_value_def is_null_def)
  have c: "fetch_debt_comparison ''AAPL''
        (Inr [(''Total Debt'', [PFloat NaN, PFloat (Finite 100)])]) =
       ([], [(''Total Debt Last Year'', PStr ''100.00''),
             (''Total Debt This Year'', PStr ''nan''),
             (''Debt Change'', PStr ''Sin cambio'')])"
    by code_simp
  have d: "fetch_debt_comparison ''AAPL'' (Inr [(''Total Debt'', [PFloat (Finite 100)])]) =
       ([''Error al obtener la comparaci'' @ [CHR 0xF3] @ ''n de deuda para AAPL: ''
         @ ''single positional indexer is out-of-bounds''], [])"
    by code_simp
  from a b c d show ?thesis by blast
qed

text \<open>
  C7, amended. Position 0 is the current and position 1 the prior period. When each of
  the two labels stands in the index at most once, each debt row that is there has at
  least two cells, and the formatter accepts the two cells read (it accepts every float,
  \<^verbatim>\<open>None\<close>, every string and bool, and every integer of 64 bits), the function prints
  nothing and returns, for \<^verbatim>\<open>Total Debt\<close> and then for \<^verbatim>\<open>Long Term Debt\<close>, the three
  entries of the debt (formatted prior value, formatted current value, change) exactly
  when its row is in the index and both values are true values of Python: not
  \<^verbatim>\<open>None\<close> and not zero, a NaN being a true value. A debt row with fewer than two cells,
  or a label that stands in the index twice, makes the function print one error line and
  return the empty mapping. The mapping has 0, 3 or 6 entries in every case.
\<close>

theorem fetch_debt_comparison_emitted:
  "(\<forall>ticker bs.
      label_count bs ''Total Debt'' \<le> 1 \<and> label_count bs ''Long Term Debt'' \<le> 1
      \<and> (\<forall>r \<in> set (debt_rows bs). 2 \<le> length r \<and> accepted (r ! 0) \<and> accepted (r ! 1)) \<longrightarrow>
        fetch_debt_comparison ticker (Inr bs) =
          ([], emitted_debt_entries bs ''Total Debt'' ''Total Debt Last Year''
                 ''Total Debt This Year'' ''Debt Change''
               @ emitted_debt_entries bs ''Long Term Debt'' ''Long Term Debt Last Year''
                   ''Long Term Debt This Year'' ''Long Term Debt Change''))
   \<and> accepted PNone \<and> (\<forall>x. accepted (PFloat x)) \<and> (\<forall>s. accepted (PStr s))
   \<and> (\<forall>b. accepted (PBool b)) \<and> (\<forall>i. \<bar>i\<bar> < 2 ^ 63 \<longrightarrow> accepted (PInt i))
   \<and> truthy PNone = False \<and> truthy (PFloat NaN) = True
   \<and> (\<forall>x. truthy (PFloat x) = (float_is_zero x = False)) \<and> (\<forall>i. truthy (PInt i) = (i \<noteq> 0))
   \<and> (\<forall>ticker bs r. r \<in> set (debt_rows bs) \<and> length r < 2 \<longrightarrow>
         snd (fetch_debt_comparison ticker (Inr bs)) = []
         \<and> length (fst (fetch_debt_comparison ticker (Inr bs))) = 1)
   \<and> (\<forall>ticker bs. 2 \<le> label_count bs ''Total Debt'' \<or> 2 \<le> label_count bs ''Long Term Debt'' \<longrightarrow>
         snd (fetch_debt_comparison ticker (Inr bs)) = []
         \<and> length (fst (fetch_debt_comparison ticker (Inr bs))) = 1)
   \<and> (\<forall>ticker vendor. length (snd (fetch_debt_comparison ticker vendor)) \<in> {0, 3, 6})"
proof -
  have good: "fetch_debt_comparison ticker (Inr bs) =
          ([], emitted_debt_entries bs ''Total Debt'' ''Total Debt Last Year''
                 ''Total Debt This Year'' ''Debt Change''
               @ emitted_debt_entries bs ''Long Term Debt'' ''Long Term Debt Last Year''
                   ''Long Term Debt This Year'' ''Long Term Debt Change'')"
    if "label_count bs ''Total Debt'' \<le> 1 \<and> label_count bs ''Long Term Debt'' \<le> 1
      \<and> (\<forall>r \<in> set (debt_rows bs). 2 \<le> length r \<and> accepted (r ! 0) \<and> accepted (r ! 1))"
    for ticker bs
    using that debt_comparison_body_emitted [of bs]
    by (simp add: fetch_debt_comparison_def bind_exn_def)
  have raised: "snd (fetch_debt_comparison ticker (Inr bs)) = []
         \<and> length (fst (fetch_debt_comparison ticker (Inr bs))) = 1"
    if "\<exists>e. debt_comparison_body bs = Inl e" for ticker bs
    using that by (auto simp: fetch_debt_comparison_def bind_exn_def)
  have short: "snd (fetch_debt_comparison ticker (Inr bs)) = []
         \<and> length (fst (fetch_debt_comparison ticker (Inr bs))) = 1"
    if "r \<in> set (debt_rows bs) \<and> length r < 2" for ticker bs r
    using that short_row_raises [of r bs] raised by blast
  have dup: "snd (fetch_debt_comparison ticker (Inr bs)) = []
         \<and> length (fst (fetch_debt_comparison ticker (Inr bs))) = 1"
    if "2 \<le> label_count bs ''Total Debt'' \<or> 2 \<le> label_count bs ''Long Term Debt''"
    for ticker bs
    using that duplicated_label_raises [of bs] raised by blast
  have len: "length (snd (fetch_debt_comparison ticker vendor)) \<in> {0, 3, 6}" for ticker vendor
  proof (cases "bind_exn vendor debt_comparison_body")
    case (Inl e)
    then show ?thesis by (simp add: fetch_debt_comparison_def)
  next
    case (Inr d)
    then obtain bs where "debt_comparison_body bs = Inr d"
      by (cases vendor) (simp_all add: bind_exn_def)
    then have "length d \<in> {0, 3, 6}" by (rule length_debt_comparison_body)
    with Inr show ?thesis by (simp add: fetch_debt_comparison_def)
  qed
  have tr: "truthy PNone = False" "truthy (PFloat NaN) = True"
    "\<forall>x. truthy (PFloat x) = (float_is_zero x = False)" "\<forall>i. truthy (PInt i) = (i \<noteq> 0)"
    by (simp_all add: truthy_def float_is_zero_def)
  show ?thesis
    using good accepted_None accepted_float accepted_str accepted_bool accepted_int tr
      short dup len
    by blast
qed

theorem fetch_debt_comparison_emitted_witness:
  "label_count [(''Total Debt'', [PInt 150, PInt 100]),
                (''Long Term Debt'', [PFloat (Finite 0), PFloat (Finite 80)])] ''Total Debt'' \<le> 1
   \<and> label_count [(''Total Debt'', [PInt 150, PInt 100]),
                (''Long Term Debt'', [PFloat (Finite 0), PFloat (Finite 80)])]
        ''Long Term Debt'' \<le> 1
   \<and> list_all (\<lambda>r. 2 \<le> length r \<and> accepted (r ! 0) \<and> accepted (r ! 1))
        (debt_rows [(''Total Debt'', [PInt 150, PInt 100]),
                    (''Long Term Debt'', [PFloat (Finite 0), PFloat (Finite 80)])])
   \<and> fetch_debt_comparison ''AAPL''
        (Inr [(''Total Debt'', [PInt 150, PInt 100]),
              (''Long Term Debt'', [PFloat (Finite 0), PFloat (Finite 80)])]) =
       ([], [(''Total Debt Last Year'', PStr ''100.00''),
             (''Total Debt This Year'', PStr ''150.00''),
             (''Debt Change'', PStr ''Aumento de 50.00'')])
   \<and> 2 \<le> label_count [(''Total Debt'', [PInt 150, PInt 100]),
                      (''Total Debt'', [PInt 150, PInt 100])] ''Total Debt''
   \<and> snd (fetch_debt_comparison ''AAPL''
        (Inr [(''Total Debt'', [PInt 150, PInt 100]),
              (''Total Debt'', [PInt 150, PInt 100])])) = []"
proof -
  let ?bs = "[(''Total Debt'', [PInt 150, PInt 100]),
              (''Long Term Debt'', [PFloat (Finite 0), PFloat (Finite 80)])]"
  let ?dup = "[(''Total Debt'', [PInt 150, PInt 100]), (''Total Debt'', [PInt 150, PInt 100])]"
  have c: "label_count ?bs ''Total Debt'' \<le> 1" "label_count ?bs ''Long Term Debt'' \<le> 1"
    by (simp_all add: label_count_def)
  have acc: "accepted (PInt 150)" "accepted (PInt 100)" "accepted (PFloat (Finite 0))"
    "accepted (PFloat (Finite 80))"
    by (simp_all add: accepted_float accepted_int)
  have h: "\<forall>r \<in> set (debt_rows ?bs). 2 \<le> length r \<and> accepted (r ! 0) \<and> accepted (r ! 1)"
    using acc by (simp add: debt_rows_def)
  have e1: "emitted_debt_entries ?bs ''Total Debt'' ''Total Debt Last Year''
                ''Total Debt This Year'' ''Debt Change'' =
       [(''Total Debt Last Year'', PStr ''100.00''),
        (''Total Debt This Year'', PStr ''150.00''),
        (''Debt Change'', PStr ''Aumento de 50.00'')]"
    by code_simp
  have e2: "emitted_debt_entries ?bs ''Long Term Debt'' ''Long Term Debt Last Year''
                  ''Long Term Debt This Year'' ''Long Term Debt Change'' = []"
    by (simp add: emitted_debt_entries_def truthy_def float_is_zero_def)
  note good = fetch_debt_comparison_emitted [THEN conjunct1, rule_format, of ?bs "''AAPL''"]
  from c h
  have "fetch_debt_comparison ''AAPL'' (Inr ?bs) =
         ([], emitted_debt_entries ?bs ''Total Debt'' ''Total Debt Last Year''
                ''Total Debt This Year'' ''Debt Change''
              @ emitted_debt_entries ?bs ''Long Term Debt'' ''Long Term Debt Last Year''
                  ''Long Term Debt This Year'' ''Long Term Debt Change'')"
    by (intro good conjI)
  with e1 e2 have r: "fetch_debt_comparison ''AAPL'' (Inr ?bs) =
       ([], [(''Total Debt Last Year'', PStr ''100.00''),
             (''Total Debt This Year'', PStr ''150.00''),
             (''Debt Change'', PStr ''Aumento de 50.00'')])"
    by simp
  have d: "2 \<le> label_count ?dup ''Total Debt''" by (simp add: label_count_def)
  have s: "snd (fetch_debt_comparison ''AAPL'' (Inr ?dup)) = []" by code_simp
  from h have h': "list_all (\<lambda>r. 2 \<le> length r \<and> accepted (r ! 0) \<and> accepted (r ! 1))
        (debt_rows ?bs)"
    by (simp only: list_all_iff)
  from c h' r d s show ?thesis by (intro conjI)
qed

text \<open>
  C10. The debt comparison is all or nothing. When anything raises in the body, the
  function prints one line and returns the empty mapping; what it returns is either
  empty or the complete mapping of the body. A debt row of the index with fewer than two
  cells makes the read at position 1 raise. In the example the three entries of
  \<^verbatim>\<open>Total Debt\<close> are built, the formatting of the second debt raises, and the result
  is empty.
\<close>

theorem fetch_debt_comparison_all_or_nothing:
  "(\<forall>ticker bs e. debt_comparison_body bs = Inl e \<longrightarrow>
       fetch_debt_comparison ticker (Inr bs) =
         ([''Error al obtener la comparaci'' @ [CHR 0xF3] @ ''n de deuda para '' @ ticker
            @ '': '' @ exn_text e], []))
   \<and> (\<forall>ticker bs. snd (fetch_debt_comparison ticker (Inr bs)) = []
         \<or> debt_comparison_body bs = Inr (snd (fetch_debt_comparison ticker (Inr bs))))
   \<and> (\<forall>ticker bs r. r \<in> set (debt_rows bs) \<and> length r < 2 \<longrightarrow>
         snd (fetch_debt_comparison ticker (Inr bs)) = [])
   \<and> add_debt_entries ''Total Debt Last Year'' ''Total Debt This Year'' ''Debt Change''
        (PFloat (Finite 100)) (PFloat (Finite 150)) [] =
      Inr [(''Total Debt Last Year'', PStr ''100.00''),
           (''Total Debt This Year'', PStr ''150.00''),
           (''Debt Change'', PStr ''Aumento de 50.00'')]
   \<and> snd (fetch_debt_comparison ''AAPL''
        (Inr [(''Total Debt'', [PFloat (Finite 150), PFloat (Finite 100)]),
              (''Long Term Debt'', [PList [PNone], PList [PNone]])])) = []"
proof -
  have a: "fetch_debt_comparison ticker (Inr bs) =
         ([''Error al obtener la comparaci'' @ [CHR 0xF3] @ ''n de deuda para '' @ ticker
            @ '': '' @ exn_text e], [])"
    if "debt_comparison_body bs = Inl e" for ticker bs e
    using that by (simp add: fetch_debt_comparison_def bind_exn_def)
  have b: "snd (fetch_debt_comparison ticker (Inr bs)) = []
         \<or> debt_comparison_body bs = Inr (snd (fetch_debt_comparison ticker (Inr bs)))"
    for ticker bs
    by (cases "debt_comparison_body bs") (simp_all add: fetch_debt_comparison_def bind_exn_def)
  have c: "snd (fetch_debt_comparison ticker (Inr bs)) = []"
    if "r \<in> set (debt_rows bs)" "length r < 2" for ticker bs r
    using short_row_raises [OF that] a [of bs _ ticker] by auto
  have d: "add_debt_entries ''Total Debt Last Year'' ''Total Debt This Year'' ''Debt Change''
        (PFloat (Finite 100)) (PFloat (Finite 150)) [] =
      Inr [(''Total Debt Last Year'', PStr ''100.00''),
           (''Total Debt This Year'', PStr ''150.00''),
           (''Debt Change'', PStr ''Aumento de 50.00'')]"
    by code_simp
  have e: "snd (fetch_debt_comparison ''AAPL''
        (Inr [(''Total Debt'', [PFloat (Finite 150), PFloat (Finite 100)]),
              (''Long Term Debt'', [PList [PNone], PList [PNone]])])) = []"
    by code_simp
  show ?thesis using a b c d e by blast
qed

theorem fetch_debt_comparison_all_or_nothing_witness:
  "[PFloat (Finite 100)] \<in> set (debt_rows [(''Total Debt'', [PFloat (Finite 100)])])
   \<and> length [PFloat (Finite 100)] < 2
   \<and> debt_comparison_body [(''Total Debt'', [PFloat (Finite 100)])]
       = Inl (Exn IndexError ''single positional indexer is out-of-bounds'')
   \<and> fetch_debt_comparison ''AAPL'' (Inr [(''Total Debt'', [PFloat (Finite 100)])]) =
         ([''Error al obtener la comparaci'' @ [CHR 0xF3] @ ''n de deuda para '' @ ''AAPL''
            @ '': '' @ ''single positional indexer is out-of-bounds''], [])"
proof -
  have h1: "[PFloat (Finite 100)] \<in> set (debt_rows [(''Total Debt'', [PFloat (Finite 100)])])"
    by (simp add: debt_rows_def)
  have h2: "debt_comparison_body [(''Total Debt'', [PFloat (Finite 100)])]
       = Inl (Exn IndexError ''single positional indexer is out-of-bounds'')"
    by code_simp
  from fetch_debt_comparison_all_or_nothing h2
  have "fetch_debt_comparison ''AAPL'' (Inr [(''Total Debt'', [PFloat (Finite 100)])]) =
         ([''Error al obtener la comparaci'' @ [CHR 0xF3] @ ''n de deuda para '' @ ''AAPL''
            @ '': '' @ exn_text (Exn IndexError ''single positional indexer is out-of-bounds'')], [])"
    by blast
  with h1 h2 show ?thesis by (simp add: exn_text_def)
qed

text \<open>
  C4. Neither function lets an exception out. Whatever the vendor call did and whatever
  the mapping or table holds, the run of the vendor call and the body either raises
  some exception \<open>e\<close>, and then the function prints one line with the ticker and the
  message of \<open>e\<close> and returns the empty mapping, or yields a mapping, which is returned
  with nothing printed.
\<close>

theorem fetch_never_raises:
  "(\<forall>ticker vendor e. bind_exn vendor fundamental_body = Inl e \<longrightarrow>
       fetch_fundamental_data ticker vendor =
         ([''Error al obtener datos fundamentales para '' @ ticker @ '': '' @ exn_text e], []))
   \<and> (\<forall>ticker vendor e. bind_exn vendor debt_comparison_body = Inl e \<longrightarrow>
       fetch_debt_comparison ticker vendor =
         ([''Error al obtener la comparaci'' @ [CHR 0xF3] @ ''n de deuda para '' @ ticker
            @ '': '' @ exn_text e], []))
   \<and> (\<forall>ticker vendor d. bind_exn vendor fundamental_body = Inr d \<longrightarrow>
       fetch_fundamental_data ticker vendor = ([], d))
   \<and> (\<forall>ticker vendor d. bind_exn vendor debt_comparison_body = Inr d \<longrightarrow>
       fetch_debt_comparison ticker vendor = ([], d))
   \<and> (\<forall>vendor. (\<exists>e. bind_exn vendor fundamental_body = Inl e)
                 \<or> (\<exists>d. bind_exn vendor fundamental_body = Inr d))
   \<and> (\<forall>vendor. (\<exists>e. bind_exn vendor debt_comparison_body = Inl e)
                 \<or> (\<exists>d. bind_exn vendor debt_comparison_body = Inr d))
   \<and> (\<forall>e. bind_exn (Inl e) fundamental_body = Inl e)
   \<and> (\<forall>e. bind_exn (Inl e) debt_comparison_body = Inl e)"
proof -
  have t1: "(\<exists>e. bind_exn vendor fundamental_body = Inl e)
      \<or> (\<exists>d. bind_exn vendor fundamental_body = Inr d)" for vendor
    by (cases "bind_exn vendor fundamental_body") auto
  have t2: "(\<exists>e. bind_exn vendor debt_comparison_body = Inl e)
      \<or> (\<exists>d. bind_exn vendor debt_comparison_body = Inr d)" for vendor
    by (cases "bind_exn vendor debt_comparison_body") auto
  show ?thesis
    using t1 t2 by (simp add: fetch_fundamental_data_def fetch_debt_comparison_def bind_exn_def)
qed

theorem fetch_never_raises_witness:
  "bind_exn (Inr [(''freeCashflow'', PList [])]) fundamental_body =
     Inl (Exn TypeError (''float() argument must be a string or a real number, not ''
       @ [CHR 0x27] @ ''list'' @ [CHR 0x27]))
   \<and> fetch_fundamental_data ''AAPL'' (Inr [(''freeCashflow'', PList [])]) =
       ([''Error al obtener datos fundamentales para '' @ ''AAPL'' @ '': ''
         @ ''float() argument must be a string or a real number, not ''
         @ [CHR 0x27] @ ''list'' @ [CHR 0x27]], [])
   \<and> bind_exn (Inl (Exn OtherException ''No data found'')) debt_comparison_body =
       Inl (Exn OtherException ''No data found'')
   \<and> fetch_debt_comparison ''AAPL'' (Inl (Exn OtherException ''No data found'')) =
       ([''Error al obtener la comparaci'' @ [CHR 0xF3] @ ''n de deuda para '' @ ''AAPL''
            @ '': '' @ ''No data found''], [])"
proof -
  have h1: "bind_exn (Inr [(''freeCashflow'', PList [])]) fundamental_body =
     Inl (Exn TypeError (''float() argument must be a string or a real number, not ''
       @ [CHR 0x27] @ ''list'' @ [CHR 0x27]))"
    by code_simp
  have h2: "bind_exn (Inl (Exn OtherException ''No data found'')) debt_comparison_body =
       Inl (Exn OtherException ''No data found'')"
    by (simp add: bind_exn_def)
  from fetch_never_raises h1
  have c1: "fetch_fundamental_data ''AAPL'' (Inr [(''freeCashflow'', PList [])]) =
       ([''Error al obtener datos fundamentales para '' @ ''AAPL'' @ '': ''
         @ exn_text (Exn TypeError (''float() argument must be a string or a real number, not ''
       @ [CHR 0x27] @ ''list'' @ [CHR 0x27]))], [])"
    by blast
  from fetch_never_raises h2
  have c2: "fetch_debt_comparison ''AAPL'' (Inl (Exn OtherException ''No data found'')) =
       ([''Error al obtener la comparaci'' @ [CHR 0xF3] @ ''n de deuda para '' @ ''AAPL''
            @ '': '' @ exn_text (Exn OtherException ''No data found'')], [])"
    by blast
  from h1 h2 c1 c2 show ?thesis by (simp add: exn_text_def)
qed

subsection \<open>Exchange code mapper\<close>

text \<open>
  C8. The exchange code mapper is a total function on strings: each of the eight codes
  NMS, NYQ, ASE, MCE, TOR, LSE, JPX, OTC is sent to its readable name, and every other
  string is returned unchanged (so \<open>XXX\<close> stays \<open>XXX\<close>).
\<close>

theorem market_name_total:
  "map fst EXCHANGE_MAPPING =
     [''NMS'', ''NYQ'', ''ASE'', ''MCE'', ''TOR'', ''LSE'', ''JPX'', ''OTC'']
   \<and> market_name ''NMS'' = ''NASDAQ''
   \<and> market_name ''NYQ'' = ''NYSE''
   \<and> market_name ''ASE'' = ''AMEX''
   \<and> market_name ''MCE'' = ''Mercado continuo''
   \<and> market_name ''TOR'' = ''Toronto Stock Exchange''
   \<and> market_name ''LSE'' = ''London Stock Exchange''
   \<and> market_name ''JPX'' = ''Tokyo Stock Exchange''
   \<and> market_name ''OTC'' = ''Over the Counter''
   \<and> (\<forall>code. code \<notin> set (map fst EXCHANGE_MAPPING) \<longrightarrow> market_name code = code)"
proof -
  have unknown: "market_name code = code" if "code \<notin> set (map fst EXCHANGE_MAPPING)" for code
  proof -
    from that have "map_of EXCHANGE_MAPPING code = None"
      by (simp add: map_of_eq_None_iff)
    then show ?thesis by (simp add: market_name_def)
  qed
  show ?thesis
    using unknown by (simp add: market_name_def EXCHANGE_MAPPING_def)
qed

theorem market_name_total_witness:
  "''XXX'' \<notin> set (map fst EXCHANGE_MAPPING) \<and> market_name ''XXX'' = ''XXX''"
proof -
  have h: "''XXX'' \<notin> set (map fst EXCHANGE_MAPPING)"
    by (simp add: EXCHANGE_MAPPING_def)
  from market_name_total have "market_name ''XXX'' = ''XXX''"
    using h by blast
  with h show ?thesis by simp
qed

end
